theory Spec2Isabelle
  imports Main
begin

section \<open>The tower below GF(p^12)\<close>

text \<open>
  Modelled from the spec: gfp12.go builds the field of size p^12 on the sextic extension
  gfP6, which is built on the quadratic extension gfP2 of the prime field gfP, and none of
  the three lower layers is part of gfp12.go.  An element of gfP2 is a value of an
  arbitrary field \<open>'k\<close>, which also holds the constants of gfP.  The constants that
  gfp12.go and the Frobenius maps of gfP6 read are collected in one table: the
  non-residue \<open>\<xi>\<close>, the conjugation of gfP2 (its p-th power map), and the three powers of
  \<open>\<xi>\<close> that gfp12.go names.
\<close>

record 'k constants =
  xi :: 'k
  gfP2Conjugate :: "'k \<Rightarrow> 'k"
  xiToPMinus1Over6 :: 'k
  xiToPSquaredMinus1Over6 :: 'k
  xiToPSquaredMinus1Over3 :: 'k

record 'k gfP6 =
  x6 :: 'k
  y6 :: 'k
  z6 :: 'k

text \<open>
  Modelled from the spec: the methods of gfP2 that gfp12.go calls are \<open>Set\<close>, \<open>Neg\<close>,
  \<open>Add\<close>, \<open>Sub\<close>, \<open>Square\<close> and \<open>MulXi\<close>.  The first four are the operations of the field;
  \<open>Square\<close> multiplies an element by itself and \<open>MulXi\<close> multiplies it by \<open>\<xi>\<close>.
\<close>

definition gfP2Square :: "'k::field \<Rightarrow> 'k" where
  "gfP2Square a = a * a"

definition gfP2MulXi :: "'k::field constants \<Rightarrow> 'k \<Rightarrow> 'k" where
  "gfP2MulXi c a = xi c * a"

text \<open>
  Modelled from the spec: the sextic extension gfP6 is not in gfp12.go.  Its value is
  \<open>x\<tau>^2 + y\<tau> + z\<close> with \<open>\<tau>^3 = \<xi>\<close>, the coordinates being the three gfP2 elements that
  \<open>SquareCyclo6\<close> reads.  The operations below are the field operations of that cubic
  extension.
\<close>

definition gfP6SetZero :: "'k::field gfP6" where
  "gfP6SetZero = \<lparr>x6 = 0, y6 = 0, z6 = 0\<rparr>"

definition gfP6SetOne :: "'k::field gfP6" where
  "gfP6SetOne = \<lparr>x6 = 0, y6 = 0, z6 = 1\<rparr>"

definition gfP6IsZero :: "'k::field gfP6 \<Rightarrow> bool" where
  "gfP6IsZero a \<longleftrightarrow> x6 a = 0 \<and> y6 a = 0 \<and> z6 a = 0"

definition gfP6IsOne :: "'k::field gfP6 \<Rightarrow> bool" where
  "gfP6IsOne a \<longleftrightarrow> x6 a = 0 \<and> y6 a = 0 \<and> z6 a = 1"

definition gfP6Neg :: "'k::field gfP6 \<Rightarrow> 'k gfP6" where
  "gfP6Neg a = \<lparr>x6 = - x6 a, y6 = - y6 a, z6 = - z6 a\<rparr>"

definition gfP6Add :: "'k::field gfP6 \<Rightarrow> 'k gfP6 \<Rightarrow> 'k gfP6" where
  "gfP6Add a b = \<lparr>x6 = x6 a + x6 b, y6 = y6 a + y6 b, z6 = z6 a + z6 b\<rparr>"

definition gfP6Sub :: "'k::field gfP6 \<Rightarrow> 'k gfP6 \<Rightarrow> 'k gfP6" where
  "gfP6Sub a b = \<lparr>x6 = x6 a - x6 b, y6 = y6 a - y6 b, z6 = z6 a - z6 b\<rparr>"

definition gfP6Mul :: "'k::field constants \<Rightarrow> 'k gfP6 \<Rightarrow> 'k gfP6 \<Rightarrow> 'k gfP6" where
  "gfP6Mul c a b =
     \<lparr>x6 = x6 a * z6 b + y6 a * y6 b + z6 a * x6 b,
      y6 = y6 a * z6 b + z6 a * y6 b + xi c * (x6 a * x6 b),
      z6 = z6 a * z6 b + xi c * (x6 a * y6 b + y6 a * x6 b)\<rparr>"

definition gfP6Square :: "'k::field constants \<Rightarrow> 'k gfP6 \<Rightarrow> 'k gfP6" where
  "gfP6Square c a = gfP6Mul c a a"

definition gfP6MulScalar :: "'k::field gfP6 \<Rightarrow> 'k \<Rightarrow> 'k gfP6" where
  "gfP6MulScalar a b = \<lparr>x6 = x6 a * b, y6 = y6 a * b, z6 = z6 a * b\<rparr>"

definition gfP6MulGFP :: "'k::field gfP6 \<Rightarrow> 'k \<Rightarrow> 'k gfP6" where
  "gfP6MulGFP a b = \<lparr>x6 = x6 a * b, y6 = y6 a * b, z6 = z6 a * b\<rparr>"

definition gfP6MulTau :: "'k::field constants \<Rightarrow> 'k gfP6 \<Rightarrow> 'k gfP6" where
  "gfP6MulTau c a = \<lparr>x6 = y6 a, y6 = z6 a, z6 = xi c * x6 a\<rparr>"

text \<open>
  Modelled from the spec: \<open>gfP6.Invert\<close> is not in gfp12.go.  The inverse in the cubic
  extension is the adjugate \<open>C\<tau>^2 + B\<tau> + A\<close> divided by the norm \<open>F\<close>, an element of gfP2; on the
  zero element the result is zero (the spec leaves it undefined).
\<close>

definition gfP6Norm :: "'k::field constants \<Rightarrow> 'k gfP6 \<Rightarrow> 'k" where
  "gfP6Norm c a =
    (let A = z6 a * z6 a - xi c * (x6 a * y6 a);
         B = xi c * (x6 a * x6 a) - y6 a * z6 a;
         C = y6 a * y6 a - x6 a * z6 a
     in xi c * (C * y6 a) + A * z6 a + xi c * (B * x6 a))"

definition gfP6Invert :: "'k::field constants \<Rightarrow> 'k gfP6 \<Rightarrow> 'k gfP6" where
  "gfP6Invert c a =
    (let A = z6 a * z6 a - xi c * (x6 a * y6 a);
         B = xi c * (x6 a * x6 a) - y6 a * z6 a;
         C = y6 a * y6 a - x6 a * z6 a;
         F = inverse (gfP6Norm c a)
     in \<lparr>x6 = C * F, y6 = B * F, z6 = A * F\<rparr>)"

text \<open>
  Modelled from the spec: the Frobenius maps of gfP6 are not in gfp12.go.  The p-th power
  map conjugates each gfP2 coordinate and twists the coordinates of \<open>\<tau>^2\<close> and \<open>\<tau>\<close> by
  \<open>\<xi>^((2p-2)/3)\<close> and \<open>\<xi>^((p-1)/3)\<close>, which are the fourth power and the square of
  \<open>xiToPMinus1Over6\<close>.  The p^2-th and p^4-th power maps fix gfP2 and twist by powers of
  \<open>xiToPSquaredMinus1Over3\<close>.
\<close>

definition gfP6Frobenius :: "'k::field constants \<Rightarrow> 'k gfP6 \<Rightarrow> 'k gfP6" where
  "gfP6Frobenius c a =
    (let xiToPMinus1Over3 = xiToPMinus1Over6 c * xiToPMinus1Over6 c;
         xiTo2PMinus2Over3 = xiToPMinus1Over3 * xiToPMinus1Over3
     in \<lparr>x6 = gfP2Conjugate c (x6 a) * xiTo2PMinus2Over3,
         y6 = gfP2Conjugate c (y6 a) * xiToPMinus1Over3,
         z6 = gfP2Conjugate c (z6 a)\<rparr>)"

definition gfP6FrobeniusP2 :: "'k::field constants \<Rightarrow> 'k gfP6 \<Rightarrow> 'k gfP6" where
  "gfP6FrobeniusP2 c a =
    (let xiTo2PSquaredMinus2Over3 = xiToPSquaredMinus1Over3 c * xiToPSquaredMinus1Over3 c
     in \<lparr>x6 = x6 a * xiTo2PSquaredMinus2Over3,
         y6 = y6 a * xiToPSquaredMinus1Over3 c,
         z6 = z6 a\<rparr>)"

definition gfP6FrobeniusP4 :: "'k::field constants \<Rightarrow> 'k gfP6 \<Rightarrow> 'k gfP6" where
  "gfP6FrobeniusP4 c a =
    (let xiTo2PSquaredMinus2Over3 = xiToPSquaredMinus1Over3 c * xiToPSquaredMinus1Over3 c
     in \<lparr>x6 = x6 a * xiToPSquaredMinus1Over3 c,
         y6 = y6 a * xiTo2PSquaredMinus2Over3,
         z6 = z6 a\<rparr>)"

section \<open>GF(p^12): gfp12.go\<close>

record 'k gfP12 =
  x12 :: "'k gfP6"
  y12 :: "'k gfP6"

definition SetZero :: "'k::field gfP12" where
  "SetZero = \<lparr>x12 = gfP6SetZero, y12 = gfP6SetZero\<rparr>"

definition SetOne :: "'k::field gfP12" where
  "SetOne = \<lparr>x12 = gfP6SetZero, y12 = gfP6SetOne\<rparr>"

definition IsZero :: "'k::field gfP12 \<Rightarrow> bool" where
  "IsZero e \<longleftrightarrow> gfP6IsZero (x12 e) \<and> gfP6IsZero (y12 e)"

definition IsOne :: "'k::field gfP12 \<Rightarrow> bool" where
  "IsOne e \<longleftrightarrow> gfP6IsZero (x12 e) \<and> gfP6IsOne (y12 e)"

definition Conjugate :: "'k::field gfP12 \<Rightarrow> 'k gfP12" where
  "Conjugate a = \<lparr>x12 = gfP6Neg (x12 a), y12 = y12 a\<rparr>"

definition Neg :: "'k::field gfP12 \<Rightarrow> 'k gfP12" where
  "Neg a = \<lparr>x12 = gfP6Neg (x12 a), y12 = gfP6Neg (y12 a)\<rparr>"

definition Add :: "'k::field gfP12 \<Rightarrow> 'k gfP12 \<Rightarrow> 'k gfP12" where
  "Add a b = \<lparr>x12 = gfP6Add (x12 a) (x12 b), y12 = gfP6Add (y12 a) (y12 b)\<rparr>"

definition Sub :: "'k::field gfP12 \<Rightarrow> 'k gfP12 \<Rightarrow> 'k gfP12" where
  "Sub a b = \<lparr>x12 = gfP6Sub (x12 a) (x12 b), y12 = gfP6Sub (y12 a) (y12 b)\<rparr>"

definition Mul :: "'k::field constants \<Rightarrow> 'k gfP12 \<Rightarrow> 'k gfP12 \<Rightarrow> 'k gfP12" where
  "Mul c a b =
    (let tx = gfP6Mul c (x12 a) (y12 b);
         t = gfP6Mul c (x12 b) (y12 a);
         tx = gfP6Add tx t;
         ty = gfP6Mul c (y12 a) (y12 b);
         t = gfP6MulTau c (gfP6Mul c (x12 a) (x12 b))
     in \<lparr>x12 = tx, y12 = gfP6Add ty t\<rparr>)"

definition MulScalar :: "'k::field constants \<Rightarrow> 'k gfP12 \<Rightarrow> 'k gfP6 \<Rightarrow> 'k gfP12" where
  "MulScalar c a b = \<lparr>x12 = gfP6Mul c (x12 a) b, y12 = gfP6Mul c (y12 a) b\<rparr>"

definition Square :: "'k::field constants \<Rightarrow> 'k gfP12 \<Rightarrow> 'k gfP12" where
  "Square c a =
    (let v0 = gfP6Mul c (x12 a) (y12 a);
         t = gfP6MulTau c (x12 a);
         t = gfP6Add (y12 a) t;
         ty = gfP6Add (x12 a) (y12 a);
         ty = gfP6Sub (gfP6Mul c ty t) v0;
         t = gfP6MulTau c v0;
         ty = gfP6Sub ty t
     in \<lparr>x12 = gfP6Add v0 v0, y12 = ty\<rparr>)"

definition Frobenius :: "'k::field constants \<Rightarrow> 'k gfP12 \<Rightarrow> 'k gfP12" where
  "Frobenius c a =
    \<lparr>x12 = gfP6MulScalar (gfP6Frobenius c (x12 a)) (xiToPMinus1Over6 c),
     y12 = gfP6Frobenius c (y12 a)\<rparr>"

definition FrobeniusP2 :: "'k::field constants \<Rightarrow> 'k gfP12 \<Rightarrow> 'k gfP12" where
  "FrobeniusP2 c a =
    \<lparr>x12 = gfP6MulGFP (gfP6FrobeniusP2 c (x12 a)) (xiToPSquaredMinus1Over6 c),
     y12 = gfP6FrobeniusP2 c (y12 a)\<rparr>"

definition FrobeniusP4 :: "'k::field constants \<Rightarrow> 'k gfP12 \<Rightarrow> 'k gfP12" where
  "FrobeniusP4 c a =
    \<lparr>x12 = gfP6MulGFP (gfP6FrobeniusP4 c (x12 a)) (xiToPSquaredMinus1Over3 c),
     y12 = gfP6FrobeniusP4 c (y12 a)\<rparr>"

text \<open>
  \<open>power.BitLen()\<close> is the length in bits of the absolute value of \<open>power\<close>, and
  \<open>power.Bit(i)\<close> the i-th bit of its two's complement form.
\<close>

function bitlen :: "int \<Rightarrow> nat" where
  "bitlen k = (if k \<le> 0 then 0 else Suc (bitlen (k div 2)))"
  by auto
termination by (relation "measure nat") auto

declare bitlen.simps [simp del]

definition BitLen :: "int \<Rightarrow> nat" where
  "BitLen power' = bitlen \<bar>power'\<bar>"

text \<open>
  The body of the loop of \<open>Exp\<close> at bit \<open>i\<close>, and the loop with \<open>n = i + 1\<close> iterations
  left to run.
\<close>

definition ExpStep :: "'k::field constants \<Rightarrow> 'k gfP12 \<Rightarrow> int \<Rightarrow> 'k gfP12 \<Rightarrow> nat \<Rightarrow> 'k gfP12" where
  "ExpStep c a power' sumv i =
    (let t = Square c sumv
     in if bit power' i then Mul c t a else t)"

fun ExpLoop :: "'k::field constants \<Rightarrow> 'k gfP12 \<Rightarrow> int \<Rightarrow> 'k gfP12 \<Rightarrow> nat \<Rightarrow> 'k gfP12" where
  "ExpLoop c a power' sumv 0 = sumv"
| "ExpLoop c a power' sumv (Suc i) = ExpLoop c a power' (ExpStep c a power' sumv i) i"

definition Exp :: "'k::field constants \<Rightarrow> 'k gfP12 \<Rightarrow> int \<Rightarrow> 'k gfP12" where
  "Exp c a power' = ExpLoop c a power' SetOne (BitLen power')"

definition gfP4Square :: "'k::field constants \<Rightarrow> 'k \<Rightarrow> 'k \<Rightarrow> 'k \<times> 'k" where
  "gfP4Square c x y =
    (let t1 = gfP2Square x;
         t2 = gfP2Square y;
         retX = x + y;
         retX = gfP2Square retX;
         retX = retX - t1;
         retX = retX - t2;
         retY = gfP2MulXi c t1;
         retY = retY + t2
     in (retX, retY))"

definition SquareCyclo6 :: "'k::field constants \<Rightarrow> 'k gfP12 \<Rightarrow> 'k gfP12" where
  "SquareCyclo6 c a =
    (let (t11, t00) = gfP4Square c (y6 (x12 a)) (z6 (y12 a));
         (t12, t01) = gfP4Square c (x6 (y12 a)) (z6 (x12 a));
         (t02, t10) = gfP4Square c (x6 (x12 a)) (y6 (y12 a));
         f00 = gfP2MulXi c t02;
         t02 = t10;
         t10 = f00;
         f00 = t00 + t00;
         t00 = f00 + t00;
         f00 = t01 + t01;
         t01 = f00 + t01;
         f00 = t02 + t02;
         t02 = f00 + t02;
         f00 = t10 + t10;
         t10 = f00 + t10;
         f00 = t11 + t11;
         t11 = f00 + t11;
         f00 = t12 + t12;
         t12 = f00 + t12;
         f00 = z6 (y12 a) + z6 (y12 a);
         f00 = - f00;
         f01 = y6 (y12 a) + y6 (y12 a);
         f01 = - f01;
         f02 = x6 (y12 a) + x6 (y12 a);
         f02 = - f02;
         f10 = z6 (x12 a) + z6 (x12 a);
         f11 = y6 (x12 a) + y6 (x12 a);
         f12 = x6 (x12 a) + x6 (x12 a);
         f00 = f00 + t00;
         f01 = f01 + t01;
         f02 = f02 + t02;
         f10 = f10 + t10;
         f11 = f11 + t11;
         f12 = f12 + t12
     in \<lparr>x12 = \<lparr>x6 = f12, y6 = f11, z6 = f10\<rparr>,
         y12 = \<lparr>x6 = f02, y6 = f01, z6 = f00\<rparr>\<rparr>)"

definition powToVCyclo6 :: "'k::field constants \<Rightarrow> 'k gfP12 \<Rightarrow> 'k gfP12" where
  "powToVCyclo6 c a =
    (let t0 = SquareCyclo6 c a;
         t0 = SquareCyclo6 c t0;
         t0 = SquareCyclo6 c t0;
         t1 = SquareCyclo6 c t0;
         t1 = SquareCyclo6 c t1;
         t1 = SquareCyclo6 c t1;
         t2 = Conjugate t0;
         t2 = Mul c t2 a;
         t2 = Mul c t2 t1;
         t2 = SquareCyclo6 c t2;
         t2 = SquareCyclo6 c t2;
         t2 = SquareCyclo6 c t2;
         t2 = SquareCyclo6 c t2;
         t2 = SquareCyclo6 c t2;
         t2 = SquareCyclo6 c t2;
         t2 = SquareCyclo6 c t2;
         t2 = Mul c t2 a;
         t2 = SquareCyclo6 c t2;
         t2 = SquareCyclo6 c t2;
         t2 = SquareCyclo6 c t2;
         t2 = SquareCyclo6 c t2;
         t2 = SquareCyclo6 c t2;
         t2 = SquareCyclo6 c t2;
         t2 = SquareCyclo6 c t2;
         t2 = SquareCyclo6 c t2
     in Mul c t2 a)"

definition PowToUCyclo6 :: "'k::field constants \<Rightarrow> 'k gfP12 \<Rightarrow> 'k gfP12" where
  "PowToUCyclo6 c a =
    (let e = powToVCyclo6 c a;
         e = powToVCyclo6 c e;
         e = powToVCyclo6 c e
     in e)"

definition Invert :: "'k::field constants \<Rightarrow> 'k gfP12 \<Rightarrow> 'k gfP12" where
  "Invert c a =
    (let t1 = gfP6Square c (x12 a);
         t2 = gfP6Square c (y12 a);
         t1 = gfP6Sub t2 (gfP6MulTau c t1);
         t2 = gfP6Invert c t1;
         e = \<lparr>x12 = gfP6Neg (x12 a), y12 = y12 a\<rparr>
     in MulScalar c e t2)"

section \<open>Powers and the cyclotomic subgroup\<close>

text \<open>The n-th power of \<open>a\<close> by repeated multiplication, the reference for \<open>Exp\<close>.\<close>

fun gfP12pow :: "'k::field constants \<Rightarrow> 'k gfP12 \<Rightarrow> nat \<Rightarrow> 'k gfP12" where
  "gfP12pow c a 0 = SetOne"
| "gfP12pow c a (Suc n) = Mul c a (gfP12pow c a n)"

text \<open>
  What the table of constants owes to \<open>FrobeniusP2\<close> and \<open>FrobeniusP4\<close>: the constant
  \<open>\<xi>^((p^2-1)/3)\<close> is the square of \<open>\<gamma> = \<xi>^((p^2-1)/6)\<close>, and \<open>\<gamma>\<close> is a primitive sixth root of
  unity, \<open>\<gamma>^2 - \<gamma> + 1 = 0\<close>.
\<close>

definition twist_ok :: "'k::field constants \<Rightarrow> bool" where
  "twist_ok c \<longleftrightarrow>
     xiToPSquaredMinus1Over3 c = xiToPSquaredMinus1Over6 c * xiToPSquaredMinus1Over6 c \<and>
     xiToPSquaredMinus1Over6 c * xiToPSquaredMinus1Over6 c + 1 = xiToPSquaredMinus1Over6 c"

text \<open>
  Norm 1 is the spec's definition of the cyclotomic subgroup: \<open>conjugate(a) \<cdot> a = 1\<close>, that
  is \<open>a^(p^6+1) = 1\<close>.  The subgroup on which the squaring of Granger and Scott is valid is
  smaller: its elements also satisfy \<open>a^(p^4) \<cdot> a = a^(p^2)\<close>, that is \<open>a^(p^4-p^2+1) = 1\<close>.
\<close>

definition norm1 :: "'k::field constants \<Rightarrow> 'k gfP12 \<Rightarrow> bool" where
  "norm1 c a \<longleftrightarrow> Mul c (Conjugate a) a = SetOne"

definition cyclotomic :: "'k::field constants \<Rightarrow> 'k gfP12 \<Rightarrow> bool" where
  "cyclotomic c a \<longleftrightarrow> norm1 c a \<and> Mul c (FrobeniusP4 c a) a = FrobeniusP2 c a"

text \<open>
  What makes the tower a field: \<open>\<xi>\<close> is neither a square nor a cube in gfP2, so that
  \<open>X^6 - \<xi>\<close> is irreducible.
\<close>

definition nonresidue :: "'k::field constants \<Rightarrow> bool" where
  "nonresidue c \<longleftrightarrow> (\<forall>t. t * t \<noteq> xi c \<and> t * t * t \<noteq> xi c)"

text \<open>
  What the table of constants owes to \<open>Frobenius\<close>: the conjugation of gfP2 (its p-th power
  map) is multiplicative and an involution, and the norm of \<open>\<xi>^((p-1)/6)\<close> is
  \<open>\<xi>^((p^2-1)/6)\<close>.
\<close>

definition frobenius_ok :: "'k::field constants \<Rightarrow> bool" where
  "frobenius_ok c \<longleftrightarrow>
     (\<forall>x y. gfP2Conjugate c (x * y) = gfP2Conjugate c x * gfP2Conjugate c y) \<and>
     (\<forall>x. gfP2Conjugate c (gfP2Conjugate c x) = x) \<and>
     xiToPMinus1Over6 c * gfP2Conjugate c (xiToPMinus1Over6 c) = xiToPSquaredMinus1Over6 c"

section \<open>Destinations and operands in one store\<close>

text \<open>
  Every method of gfp12.go writes through its receiver and reads through its arguments,
  which may point to the same object.  The store holds the gfP12 objects by address.  An
  argument of type \<open>*gfP12\<close> is the object at an address or a temporary of the caller, which
  no other pointer reaches; an argument of type \<open>*gfP6\<close> is a coordinate of an object of
  the store or such a temporary.  The methods of gfP6 are taken to read their arguments
  before they write their receiver, as the spec says of every operation.
\<close>

type_synonym 'k store = "nat \<Rightarrow> 'k gfP12"

datatype 'k operand = At nat | Val "'k gfP12"

datatype 'k operand6 = XOf nat | YOf nat | Val6 "'k gfP6"

fun rd :: "'k store \<Rightarrow> 'k operand \<Rightarrow> 'k gfP12" where
  "rd s (At p) = s p"
| "rd s (Val v) = v"

fun rd6 :: "'k store \<Rightarrow> 'k operand6 \<Rightarrow> 'k gfP6" where
  "rd6 s (XOf p) = x12 (s p)"
| "rd6 s (YOf p) = y12 (s p)"
| "rd6 s (Val6 v) = v"

definition wr_x :: "nat \<Rightarrow> 'k gfP6 \<Rightarrow> 'k store \<Rightarrow> 'k store" where
  "wr_x e v s = s(e := (s e)\<lparr>x12 := v\<rparr>)"

definition wr_y :: "nat \<Rightarrow> 'k gfP6 \<Rightarrow> 'k store \<Rightarrow> 'k store" where
  "wr_y e v s = s(e := (s e)\<lparr>y12 := v\<rparr>)"

text \<open>The methods, statement by statement; each returns the store after the call.\<close>

definition Set_st :: "nat \<Rightarrow> 'k operand \<Rightarrow> 'k store \<Rightarrow> 'k store" where
  "Set_st e a s =
    (let s = wr_x e (x12 (rd s a)) s;
         s = wr_y e (y12 (rd s a)) s
     in s)"

definition Conjugate_st :: "nat \<Rightarrow> 'k::field operand \<Rightarrow> 'k store \<Rightarrow> 'k store" where
  "Conjugate_st e a s =
    (let s = wr_x e (gfP6Neg (x12 (rd s a))) s;
         s = wr_y e (y12 (rd s a)) s
     in s)"

definition Neg_st :: "nat \<Rightarrow> 'k::field operand \<Rightarrow> 'k store \<Rightarrow> 'k store" where
  "Neg_st e a s =
    (let s = wr_x e (gfP6Neg (x12 (rd s a))) s;
         s = wr_y e (gfP6Neg (y12 (rd s a))) s
     in s)"

definition Frobenius_st :: "'k::field constants \<Rightarrow> nat \<Rightarrow> 'k operand \<Rightarrow> 'k store \<Rightarrow> 'k store" where
  "Frobenius_st c e a s =
    (let s = wr_x e (gfP6Frobenius c (x12 (rd s a))) s;
         s = wr_y e (gfP6Frobenius c (y12 (rd s a))) s;
         s = wr_x e (gfP6MulScalar (x12 (s e)) (xiToPMinus1Over6 c)) s
     in s)"

definition FrobeniusP2_st :: "'k::field constants \<Rightarrow> nat \<Rightarrow> 'k operand \<Rightarrow> 'k store \<Rightarrow> 'k store" where
  "FrobeniusP2_st c e a s =
    (let s = wr_x e (gfP6FrobeniusP2 c (x12 (rd s a))) s;
         s = wr_x e (gfP6MulGFP (x12 (s e)) (xiToPSquaredMinus1Over6 c)) s;
         s = wr_y e (gfP6FrobeniusP2 c (y12 (rd s a))) s
     in s)"

definition FrobeniusP4_st :: "'k::field constants \<Rightarrow> nat \<Rightarrow> 'k operand \<Rightarrow> 'k store \<Rightarrow> 'k store" where
  "FrobeniusP4_st c e a s =
    (let s = wr_x e (gfP6FrobeniusP4 c (x12 (rd s a))) s;
         s = wr_x e (gfP6MulGFP (x12 (s e)) (xiToPSquaredMinus1Over3 c)) s;
         s = wr_y e (gfP6FrobeniusP4 c (y12 (rd s a))) s
     in s)"

definition Add_st :: "nat \<Rightarrow> 'k::field operand \<Rightarrow> 'k operand \<Rightarrow> 'k store \<Rightarrow> 'k store" where
  "Add_st e a b s =
    (let s = wr_x e (gfP6Add (x12 (rd s a)) (x12 (rd s b))) s;
         s = wr_y e (gfP6Add (y12 (rd s a)) (y12 (rd s b))) s
     in s)"

definition Sub_st :: "nat \<Rightarrow> 'k::field operand \<Rightarrow> 'k operand \<Rightarrow> 'k store \<Rightarrow> 'k store" where
  "Sub_st e a b s =
    (let s = wr_x e (gfP6Sub (x12 (rd s a)) (x12 (rd s b))) s;
         s = wr_y e (gfP6Sub (y12 (rd s a)) (y12 (rd s b))) s
     in s)"

definition Mul_st ::
  "'k::field constants \<Rightarrow> nat \<Rightarrow> 'k operand \<Rightarrow> 'k operand \<Rightarrow> 'k store \<Rightarrow> 'k store" where
  "Mul_st c e a b s =
    (let tx = gfP6Mul c (x12 (rd s a)) (y12 (rd s b));
         t = gfP6Mul c (x12 (rd s b)) (y12 (rd s a));
         tx = gfP6Add tx t;
         ty = gfP6Mul c (y12 (rd s a)) (y12 (rd s b));
         t = gfP6MulTau c (gfP6Mul c (x12 (rd s a)) (x12 (rd s b)));
         s = wr_x e tx s;
         s = wr_y e (gfP6Add ty t) s
     in s)"

definition MulScalar_st ::
  "'k::field constants \<Rightarrow> nat \<Rightarrow> 'k operand \<Rightarrow> 'k operand6 \<Rightarrow> 'k store \<Rightarrow> 'k store" where
  "MulScalar_st c e a b s =
    (let s = wr_x e (gfP6Mul c (x12 (rd s a)) (rd6 s b)) s;
         s = wr_y e (gfP6Mul c (y12 (rd s a)) (rd6 s b)) s
     in s)"

definition Square_st :: "'k::field constants \<Rightarrow> nat \<Rightarrow> 'k operand \<Rightarrow> 'k store \<Rightarrow> 'k store" where
  "Square_st c e a s =
    (let v0 = gfP6Mul c (x12 (rd s a)) (y12 (rd s a));
         t = gfP6MulTau c (x12 (rd s a));
         t = gfP6Add (y12 (rd s a)) t;
         ty = gfP6Add (x12 (rd s a)) (y12 (rd s a));
         ty = gfP6Sub (gfP6Mul c ty t) v0;
         t = gfP6MulTau c v0;
         ty = gfP6Sub ty t;
         s = wr_x e (gfP6Add v0 v0) s;
         s = wr_y e ty s
     in s)"

text \<open>
  \<open>SquareCyclo6\<close> fills the temporary \<open>tmp\<close> from the coordinates of \<open>a\<close> and ends with
  \<open>e.Set(tmp)\<close>; \<open>Exp\<close> runs its loop on the temporaries \<open>sum\<close> and \<open>t\<close> and ends with
  \<open>c.Set(sum)\<close>.
\<close>

definition SquareCyclo6_st :: "'k::field constants \<Rightarrow> nat \<Rightarrow> 'k operand \<Rightarrow> 'k store \<Rightarrow> 'k store" where
  "SquareCyclo6_st c e a s =
    (let tmp = SquareCyclo6 c (rd s a)
     in Set_st e (Val tmp) s)"

definition Exp_st ::
  "'k::field constants \<Rightarrow> nat \<Rightarrow> 'k operand \<Rightarrow> int \<Rightarrow> 'k store \<Rightarrow> 'k store" where
  "Exp_st c e a power' s =
    (let sumv = ExpLoop c (rd s a) power' SetOne (BitLen power')
     in Set_st e (Val sumv) s)"

definition powToVCyclo6_st :: "'k::field constants \<Rightarrow> nat \<Rightarrow> 'k operand \<Rightarrow> 'k store \<Rightarrow> 'k store" where
  "powToVCyclo6_st c e a s =
    (let t0 = SquareCyclo6 c (rd s a);
         t0 = SquareCyclo6 c t0;
         t0 = SquareCyclo6 c t0;
         t1 = SquareCyclo6 c t0;
         t1 = SquareCyclo6 c t1;
         t1 = SquareCyclo6 c t1;
         t2 = Conjugate t0;
         t2 = Mul c t2 (rd s a);
         t2 = Mul c t2 t1;
         t2 = SquareCyclo6 c t2;
         t2 = SquareCyclo6 c t2;
         t2 = SquareCyclo6 c t2;
         t2 = SquareCyclo6 c t2;
         t2 = SquareCyclo6 c t2;
         t2 = SquareCyclo6 c t2;
         t2 = SquareCyclo6 c t2;
         t2 = Mul c t2 (rd s a);
         t2 = SquareCyclo6 c t2;
         t2 = SquareCyclo6 c t2;
         t2 = SquareCyclo6 c t2;
         t2 = SquareCyclo6 c t2;
         t2 = SquareCyclo6 c t2;
         t2 = SquareCyclo6 c t2;
         t2 = SquareCyclo6 c t2;
         t2 = SquareCyclo6 c t2
     in Mul_st c e (Val t2) a s)"

definition PowToUCyclo6_st :: "'k::field constants \<Rightarrow> nat \<Rightarrow> 'k operand \<Rightarrow> 'k store \<Rightarrow> 'k store" where
  "PowToUCyclo6_st c e a s =
    (let s = powToVCyclo6_st c e a s;
         s = powToVCyclo6_st c e (At e) s;
         s = powToVCyclo6_st c e (At e) s
     in s)"

definition Invert_st :: "'k::field constants \<Rightarrow> nat \<Rightarrow> 'k operand \<Rightarrow> 'k store \<Rightarrow> 'k store" where
  "Invert_st c e a s =
    (let t1 = gfP6Square c (x12 (rd s a));
         t2 = gfP6Square c (y12 (rd s a));
         t1 = gfP6Sub t2 (gfP6MulTau c t1);
         t2 = gfP6Invert c t1;
         s = wr_x e (gfP6Neg (x12 (rd s a))) s;
         s = wr_y e (y12 (rd s a)) s;
         s = MulScalar_st c e (At e) (Val6 t2) s
     in s)"

section \<open>A small instance of the tower: p = 7\<close>

text \<open>
  The prime 7 is, like the prime of the curve, congruent to 7 modulo 12.  The field of
  seven elements is extended by \<open>i\<close> with \<open>i^2 = -1\<close>, and \<open>\<xi> = i + 3\<close> is neither a
  square nor a cube there, so the tower over it has the shape of the tower of the
  library.  It serves to evaluate the operations on concrete inputs.
\<close>

datatype F7 = A0 | A1 | A2 | A3 | A4 | A5 | A6

text \<open>The tables of addition, negation, multiplication and inversion modulo 7.\<close>

fun F7_add :: "F7 \<Rightarrow> F7 \<Rightarrow> F7" where
  "F7_add A0 A0 = A0"
| "F7_add A0 A1 = A1"
| "F7_add A0 A2 = A2"
| "F7_add A0 A3 = A3"
| "F7_add A0 A4 = A4"
| "F7_add A0 A5 = A5"
| "F7_add A0 A6 = A6"
| "F7_add A1 A0 = A1"
| "F7_add A1 A1 = A2"
| "F7_add A1 A2 = A3"
| "F7_add A1 A3 = A4"
| "F7_add A1 A4 = A5"
| "F7_add A1 A5 = A6"
| "F7_add A1 A6 = A0"
| "F7_add A2 A0 = A2"
| "F7_add A2 A1 = A3"
| "F7_add A2 A2 = A4"
| "F7_add A2 A3 = A5"
| "F7_add A2 A4 = A6"
| "F7_add A2 A5 = A0"
| "F7_add A2 A6 = A1"
| "F7_add A3 A0 = A3"
| "F7_add A3 A1 = A4"
| "F7_add A3 A2 = A5"
| "F7_add A3 A3 = A6"
| "F7_add A3 A4 = A0"
| "F7_add A3 A5 = A1"
| "F7_add A3 A6 = A2"
| "F7_add A4 A0 = A4"
| "F7_add A4 A1 = A5"
| "F7_add A4 A2 = A6"
| "F7_add A4 A3 = A0"
| "F7_add A4 A4 = A1"
| "F7_add A4 A5 = A2"
| "F7_add A4 A6 = A3"
| "F7_add A5 A0 = A5"
| "F7_add A5 A1 = A6"
| "F7_add A5 A2 = A0"
| "F7_add A5 A3 = A1"
| "F7_add A5 A4 = A2"
| "F7_add A5 A5 = A3"
| "F7_add A5 A6 = A4"
| "F7_add A6 A0 = A6"
| "F7_add A6 A1 = A0"
| "F7_add A6 A2 = A1"
| "F7_add A6 A3 = A2"
| "F7_add A6 A4 = A3"
| "F7_add A6 A5 = A4"
| "F7_add A6 A6 = A5"

fun F7_neg :: "F7 \<Rightarrow> F7" where
  "F7_neg A0 = A0"
| "F7_neg A1 = A6"
| "F7_neg A2 = A5"
| "F7_neg A3 = A4"
| "F7_neg A4 = A3"
| "F7_neg A5 = A2"
| "F7_neg A6 = A1"

fun F7_mul :: "F7 \<Rightarrow> F7 \<Rightarrow> F7" where
  "F7_mul A0 A0 = A0"
| "F7_mul A0 A1 = A0"
| "F7_mul A0 A2 = A0"
| "F7_mul A0 A3 = A0"
| "F7_mul A0 A4 = A0"
| "F7_mul A0 A5 = A0"
| "F7_mul A0 A6 = A0"
| "F7_mul A1 A0 = A0"
| "F7_mul A1 A1 = A1"
| "F7_mul A1 A2 = A2"
| "F7_mul A1 A3 = A3"
| "F7_mul A1 A4 = A4"
| "F7_mul A1 A5 = A5"
| "F7_mul A1 A6 = A6"
| "F7_mul A2 A0 = A0"
| "F7_mul A2 A1 = A2"
| "F7_mul A2 A2 = A4"
| "F7_mul A2 A3 = A6"
| "F7_mul A2 A4 = A1"
| "F7_mul A2 A5 = A3"
| "F7_mul A2 A6 = A5"
| "F7_mul A3 A0 = A0"
| "F7_mul A3 A1 = A3"
| "F7_mul A3 A2 = A6"
| "F7_mul A3 A3 = A2"
| "F7_mul A3 A4 = A5"
| "F7_mul A3 A5 = A1"
| "F7_mul A3 A6 = A4"
| "F7_mul A4 A0 = A0"
| "F7_mul A4 A1 = A4"
| "F7_mul A4 A2 = A1"
| "F7_mul A4 A3 = A5"
| "F7_mul A4 A4 = A2"
| "F7_mul A4 A5 = A6"
| "F7_mul A4 A6 = A3"
| "F7_mul A5 A0 = A0"
| "F7_mul A5 A1 = A5"
| "F7_mul A5 A2 = A3"
| "F7_mul A5 A3 = A1"
| "F7_mul A5 A4 = A6"
| "F7_mul A5 A5 = A4"
| "F7_mul A5 A6 = A2"
| "F7_mul A6 A0 = A0"
| "F7_mul A6 A1 = A6"
| "F7_mul A6 A2 = A5"
| "F7_mul A6 A3 = A4"
| "F7_mul A6 A4 = A3"
| "F7_mul A6 A5 = A2"
| "F7_mul A6 A6 = A1"

fun F7_inv :: "F7 \<Rightarrow> F7" where
  "F7_inv A0 = A0"
| "F7_inv A1 = A1"
| "F7_inv A2 = A4"
| "F7_inv A3 = A5"
| "F7_inv A4 = A2"
| "F7_inv A5 = A3"
| "F7_inv A6 = A6"

instantiation F7 :: field
begin

definition zero_F7 :: F7 where "zero_F7 = A0"
definition one_F7 :: F7 where "one_F7 = A1"
definition plus_F7 :: "F7 \<Rightarrow> F7 \<Rightarrow> F7" where
  "plus_F7 a b = F7_add a b"
definition uminus_F7 :: "F7 \<Rightarrow> F7" where
  "uminus_F7 a = F7_neg a"
definition minus_F7 :: "F7 \<Rightarrow> F7 \<Rightarrow> F7" where
  "minus_F7 a b = F7_add a (F7_neg b)"
definition times_F7 :: "F7 \<Rightarrow> F7 \<Rightarrow> F7" where
  "times_F7 a b = F7_mul a b"
definition inverse_F7 :: "F7 \<Rightarrow> F7" where
  "inverse_F7 a = F7_inv a"
definition divide_F7 :: "F7 \<Rightarrow> F7 \<Rightarrow> F7" where
  "divide_F7 a b = F7_mul a (F7_inv b)"

instance
proof
  fix a b c :: F7
  show "a + b + c = a + (b + c)"
    by (cases a; cases b; cases c; simp add: plus_F7_def)
  show "a + b = b + a"
    by (cases a; cases b; simp add: plus_F7_def)
  show "0 + a = a"
    by (cases a; simp add: plus_F7_def zero_F7_def)
  show "- a + a = 0"
    by (cases a; simp add: plus_F7_def uminus_F7_def zero_F7_def)
  show "a - b = a + - b"
    by (simp add: plus_F7_def uminus_F7_def minus_F7_def)
  show "a * b * c = a * (b * c)"
    by (cases a; cases b; cases c; simp add: times_F7_def)
  show "a * b = b * a"
    by (cases a; cases b; simp add: times_F7_def)
  show "1 * a = a"
    by (cases a; simp add: times_F7_def one_F7_def)
  show "(a + b) * c = a * c + b * c"
    by (cases a; cases b; cases c; simp add: plus_F7_def times_F7_def)
  show "(0::F7) \<noteq> 1"
    by (simp add: zero_F7_def one_F7_def)
  show "a \<noteq> 0 \<Longrightarrow> inverse a * a = 1"
    by (cases a; simp add: times_F7_def inverse_F7_def zero_F7_def one_F7_def)
  show "divide a b = a * inverse b"
    by (simp add: times_F7_def inverse_F7_def divide_F7_def)
  show "inverse (0::F7) = 0"
    by (simp add: inverse_F7_def zero_F7_def)
qed

end

text \<open>The quadratic extension: \<open>F49 x y\<close> is \<open>x i + y\<close> with \<open>i^2 = -1\<close>.\<close>

datatype F49 = F49 (im: F7) (re: F7)

instantiation F49 :: field
begin

definition zero_F49 :: F49 where "zero_F49 = F49 0 0"
definition one_F49 :: F49 where "one_F49 = F49 0 1"
definition plus_F49 :: "F49 \<Rightarrow> F49 \<Rightarrow> F49" where
  "plus_F49 a b = F49 (im a + im b) (re a + re b)"
definition uminus_F49 :: "F49 \<Rightarrow> F49" where
  "uminus_F49 a = F49 (- im a) (- re a)"
definition minus_F49 :: "F49 \<Rightarrow> F49 \<Rightarrow> F49" where
  "minus_F49 a b = F49 (im a - im b) (re a - re b)"
definition times_F49 :: "F49 \<Rightarrow> F49 \<Rightarrow> F49" where
  "times_F49 a b = F49 (im a * re b + re a * im b) (re a * re b - im a * im b)"
definition inverse_F49 :: "F49 \<Rightarrow> F49" where
  "inverse_F49 a =
    (let n = inverse (im a * im a + re a * re a) in F49 (- im a * n) (re a * n))"
definition divide_F49 :: "F49 \<Rightarrow> F49 \<Rightarrow> F49" where
  "divide_F49 a b = a * inverse b"

instance
proof
  fix a b c :: F49
  show "a + b + c = a + (b + c)"
    by (simp add: plus_F49_def add.assoc)
  show "a + b = b + a"
    by (simp add: plus_F49_def add.commute)
  show "0 + a = a"
    by (simp add: plus_F49_def zero_F49_def)
  show "- a + a = 0"
    by (simp add: plus_F49_def uminus_F49_def zero_F49_def)
  show "a - b = a + - b"
    by (simp add: plus_F49_def uminus_F49_def minus_F49_def)
  show "a * b * c = a * (b * c)"
    by (simp add: times_F49_def algebra_simps)
  show "a * b = b * a"
    by (simp add: times_F49_def algebra_simps)
  show "1 * a = a"
    by (simp add: times_F49_def one_F49_def)
  show "(a + b) * c = a * c + b * c"
    by (simp add: plus_F49_def times_F49_def algebra_simps)
  show "(0::F49) \<noteq> 1"
    by (simp add: zero_F49_def one_F49_def)
  show "a \<noteq> 0 \<Longrightarrow> inverse a * a = 1"
  proof -
    assume nz: "a \<noteq> 0"
    obtain x y where a: "a = F49 x y" by (cases a)
    have n: "x * x + y * y \<noteq> 0"
      using nz unfolding a zero_F49_def
      by (cases x; cases y; simp add: plus_F7_def times_F7_def zero_F7_def)
    have "inverse (x * x + y * y) * (x * x + y * y) = 1"
      using n by simp
    then show ?thesis
      by (simp add: a times_F49_def inverse_F49_def one_F49_def Let_def algebra_simps)
  qed
  show "divide a b = a * inverse b"
    by (simp add: divide_F49_def)
  show "inverse (0::F49) = 0"
    by (simp add: inverse_F49_def zero_F49_def)
qed

end

text \<open>
  The table of constants at p = 7: \<open>\<xi> = i + 3\<close>, conjugation as the 7-th power map of the
  quadratic extension, \<open>\<xi>^((7-1)/6) = i + 3\<close>, \<open>\<xi>^((49-1)/6) = 3\<close> and \<open>\<xi>^((49-1)/3) = 2\<close>.
\<close>

definition c7 :: "F49 constants" where
  "c7 = \<lparr>xi = F49 A1 A3,
         gfP2Conjugate = (\<lambda>a. F49 (- im a) (re a)),
         xiToPMinus1Over6 = F49 A1 A3,
         xiToPSquaredMinus1Over6 = F49 A0 A3,
         xiToPSquaredMinus1Over3 = F49 A0 A2\<rparr>"

text \<open>
  Two elements of the instance: \<open>g7\<close> lies in the cyclotomic subgroup and has order
  2353 = 7^4 - 7^2 + 1; \<open>n7\<close> has norm 1 and order 50, so it lies outside.
\<close>

definition g7 :: "F49 gfP12" where
  "g7 = \<lparr>x12 = \<lparr>x6 = F49 A2 A0, y6 = F49 A5 A4, z6 = F49 A6 A3\<rparr>,
         y12 = \<lparr>x6 = F49 A0 A6, y6 = F49 A2 A4, z6 = F49 A6 A2\<rparr>\<rparr>"

definition n7 :: "F49 gfP12" where
  "n7 = \<lparr>x12 = \<lparr>x6 = F49 A0 A0, y6 = F49 A0 A3, z6 = F49 A0 A0\<rparr>,
         y12 = \<lparr>x6 = F49 A0 A0, y6 = F49 A0 A0, z6 = F49 A1 A1\<rparr>\<rparr>"

text \<open>A store with \<open>g7\<close> at address 0 and \<open>n7\<close> everywhere else.\<close>

definition s7 :: "F49 store" where
  "s7 p = (if p = 0 then g7 else n7)"

section \<open>Ring laws of the multiplication\<close>

lemmas gfP6_defs = gfP6SetZero_def gfP6SetOne_def gfP6Neg_def gfP6Add_def gfP6Sub_def
  gfP6Mul_def gfP6Square_def gfP6MulScalar_def gfP6MulGFP_def gfP6MulTau_def

lemma Mul_assoc: "Mul c (Mul c a b) d = Mul c a (Mul c b d)"
  by (simp add: Mul_def Let_def gfP6_defs algebra_simps)

lemma Mul_commute: "Mul c a b = Mul c b a"
  by (simp add: Mul_def Let_def gfP6_defs algebra_simps)

lemma Mul_left_commute: "Mul c a (Mul c b d) = Mul c b (Mul c a d)"
  by (metis Mul_assoc Mul_commute)

lemmas Mul_ac = Mul_assoc Mul_commute Mul_left_commute

lemma Mul_SetOne: "Mul c a SetOne = a"
  by (simp add: Mul_def SetOne_def Let_def gfP6_defs)

lemma SetOne_Mul: "Mul c SetOne a = a"
  by (simp add: Mul_def SetOne_def Let_def gfP6_defs)

lemma Square_Mul: "Square c a = Mul c a a"
  by (simp add: Square_def Mul_def Let_def gfP6_defs algebra_simps)

section \<open>Generic squaring agrees with multiplication\<close>

text \<open>
  Claim C3.  For every element \<open>a\<close> of GF(p^12), with no precondition, the complex-squaring
  routine \<open>Square\<close> returns the same coordinates as the generic product \<open>Mul\<close> of \<open>a\<close> with
  itself.
\<close>

theorem Square_eq_Mul: "Square c a = Mul c a a"
  by (simp add: Square_def Mul_def Let_def gfP6Mul_def gfP6Add_def gfP6Sub_def
      gfP6MulTau_def algebra_simps)

section \<open>Multiplication by an element of the sextic subfield\<close>

text \<open>
  Claim C9.  For every element \<open>a\<close> of GF(p^12) and every element \<open>b\<close> of gfP6,
  \<open>MulScalar\<close> of \<open>a\<close> and \<open>b\<close> equals \<open>Mul\<close> of \<open>a\<close> and the element with x coordinate zero
  and y coordinate \<open>b\<close>.
\<close>

theorem MulScalar_eq_Mul:
  "MulScalar c a b = Mul c a \<lparr>x12 = gfP6SetZero, y12 = b\<rparr>"
  by (simp add: MulScalar_def Mul_def Let_def gfP6_defs)

section \<open>Generic exponentiation\<close>

lemma gfP12pow_add: "gfP12pow c a (m + n) = Mul c (gfP12pow c a m) (gfP12pow c a n)"
  by (induction m) (simp_all add: SetOne_Mul Mul_assoc)

lemma gfP12pow_double: "Mul c (gfP12pow c a n) (gfP12pow c a n) = gfP12pow c a (2 * n)"
  by (simp add: gfP12pow_add [symmetric] mult_2)

lemma gfP12pow_Mul: "gfP12pow c (Mul c a b) n = Mul c (gfP12pow c a n) (gfP12pow c b n)"
  by (induction n) (simp_all add: SetOne_Mul Mul_ac)

lemma gfP12pow_SetOne: "gfP12pow c SetOne n = SetOne"
  by (induction n) (simp_all add: SetOne_Mul)

lemma gfP12pow_mult: "gfP12pow c (gfP12pow c a m) n = gfP12pow c a (m * n)"
  by (induction m) (simp_all add: gfP12pow_SetOne gfP12pow_Mul gfP12pow_add)

text \<open>One iteration of the loop doubles the exponent reached and adds the bit read.\<close>

lemma ExpStep_pow:
  "ExpStep c a p (gfP12pow c a q) i = gfP12pow c a (2 * q + (if bit p i then 1 else 0))"
  by (simp add: ExpStep_def Let_def Square_Mul gfP12pow_double Mul_commute [of c _ a])

lemma ExpLoop_pow:
  "ExpLoop c a (int N) (gfP12pow c a q) i = gfP12pow c a (q * 2 ^ i + N mod 2 ^ i)"
proof (induction i arbitrary: q)
  case 0
  show ?case by simp
next
  case (Suc i)
  have b: "N mod 2 ^ Suc i = (if bit (int N) i then 1 else 0) * 2 ^ i + N mod 2 ^ i"
  proof -
    have "N mod (2 ^ i * 2) = 2 ^ i * (N div 2 ^ i mod 2) + N mod 2 ^ i"
      by (rule mod_mult2_eq)
    then have "N mod 2 ^ Suc i = N mod 2 ^ i + 2 ^ i * (N div 2 ^ i mod 2)"
      by (simp add: mult.commute)
    moreover have "bit (int N) i \<longleftrightarrow> bit N i"
      by (simp only: bit_of_nat_iff_bit)
    moreover have "bit N i \<longleftrightarrow> N div 2 ^ i mod 2 = 1"
      by (simp add: bit_iff_odd odd_iff_mod_2_eq_one)
    ultimately show ?thesis by auto
  qed
  show ?case
    by (simp only: ExpLoop.simps ExpStep_pow Suc.IH b) (simp add: algebra_simps)
qed

lemma bitlen_bound: "0 \<le> k \<Longrightarrow> k < 2 ^ bitlen k"
proof (induction k rule: bitlen.induct)
  case (1 k)
  show ?case
  proof (cases "k \<le> 0")
    case True
    with 1 show ?thesis by (simp add: bitlen.simps)
  next
    case False
    then have "k div 2 < 2 ^ bitlen (k div 2)" using 1 by simp
    then have "k < 2 * 2 ^ bitlen (k div 2)" by linarith
    with False show ?thesis by (simp add: bitlen.simps [of k])
  qed
qed

lemma Exp_pow: "Exp c a (int n) = gfP12pow c a n"
proof -
  have "int n < 2 ^ bitlen (int n)" by (rule bitlen_bound) simp
  then have "n < 2 ^ bitlen (int n)"
    by (metis of_nat_less_iff of_nat_numeral of_nat_power)
  then show ?thesis
    using ExpLoop_pow [of c a n 0 "bitlen (int n)"] by (simp add: Exp_def BitLen_def)
qed

text \<open>
  Claim C7.  For every element \<open>a\<close> and all non-negative integers \<open>m\<close> and \<open>n\<close>, \<open>Exp\<close> of \<open>a\<close>
  at \<open>m + n\<close> is the product of \<open>Exp\<close> at \<open>m\<close> and \<open>Exp\<close> at \<open>n\<close>; \<open>Exp\<close> at 0 is the one
  element and \<open>Exp\<close> at 1 is \<open>a\<close>.
\<close>

theorem Exp_add:
  assumes "0 \<le> m" and "0 \<le> n"
  shows "Exp c a (m + n) = Mul c (Exp c a m) (Exp c a n) \<and> Exp c a 0 = SetOne \<and> Exp c a 1 = a"
proof -
  obtain m' n' where m: "m = int m'" and n: "n = int n'"
    using assms by (metis nonneg_int_cases)
  have "Exp c a (m + n) = Exp c a (int (m' + n'))" by (simp add: m n)
  also have "\<dots> = Mul c (gfP12pow c a m') (gfP12pow c a n')"
    by (simp only: Exp_pow gfP12pow_add)
  finally have "Exp c a (m + n) = Mul c (Exp c a m) (Exp c a n)"
    by (simp add: m n Exp_pow)
  moreover have "Exp c a 0 = SetOne" using Exp_pow [of c a 0] by simp
  moreover have "Exp c a 1 = a" using Exp_pow [of c a 1] by (simp add: Mul_SetOne)
  ultimately show ?thesis by simp
qed

theorem Exp_add_witness:
  "(0::int) \<le> 11 \<and> (0::int) \<le> 6 \<and>
   Exp c7 g7 (11 + 6) = Mul c7 (Exp c7 g7 11) (Exp c7 g7 6) \<and>
   Exp c7 g7 0 = SetOne \<and> Exp c7 g7 1 = g7"
  using Exp_add [of 11 6 c7 g7] by simp

section \<open>The cyclotomic subgroup\<close>

lemma gfP12_coords:
  obtains a5 a3 a1 a4 a2 a0 where
    "a = \<lparr>x12 = \<lparr>x6 = a5, y6 = a3, z6 = a1\<rparr>, y12 = \<lparr>x6 = a4, y6 = a2, z6 = a0\<rparr>\<rparr>"
  by (cases a, case_tac x12, case_tac y12) auto

lemmas Frobenius_defs = FrobeniusP2_def FrobeniusP4_def gfP6FrobeniusP2_def gfP6FrobeniusP4_def

lemma twist_ok_sixth:
  assumes t: "twist_ok c"
  shows "xiToPSquaredMinus1Over6 c ^ 6 = 1"
proof -
  define g where "g = xiToPSquaredMinus1Over6 c"
  have "g * g + 1 = g" using t by (simp add: twist_ok_def g_def)
  then have g2: "g * g = g - 1" by (simp add: algebra_simps)
  have "g * g * g = (g - 1) * g" by (simp add: g2)
  also have "\<dots> = g * g - g" by (simp add: algebra_simps)
  also have "\<dots> = - 1" by (simp add: g2)
  finally have g3: "g * g * g = - 1" .
  have "g ^ 6 = (g * g * g) * (g * g * g)" by algebra
  also have "\<dots> = 1" by (simp only: g3) simp
  finally show ?thesis by (simp only: g_def)
qed

lemma FrobeniusP2_Mul:
  assumes t: "twist_ok c"
  shows "FrobeniusP2 c (Mul c a b) = Mul c (FrobeniusP2 c a) (FrobeniusP2 c b)"
proof -
  define g where "g = xiToPSquaredMinus1Over6 c"
  define X where "X = xi c"
  have d: "xiToPSquaredMinus1Over3 c = g * g"
    using t by (simp add: twist_ok_def g_def)
  have g: "g ^ 6 = 1"
    using twist_ok_sixth [OF t] by (simp add: g_def)
  obtain a5 a3 a1 a4 a2 a0 where a:
    "a = \<lparr>x12 = \<lparr>x6 = a5, y6 = a3, z6 = a1\<rparr>, y12 = \<lparr>x6 = a4, y6 = a2, z6 = a0\<rparr>\<rparr>"
    by (rule gfP12_coords)
  obtain b5 b3 b1 b4 b2 b0 where b:
    "b = \<lparr>x12 = \<lparr>x6 = b5, y6 = b3, z6 = b1\<rparr>, y12 = \<lparr>x6 = b4, y6 = b2, z6 = b0\<rparr>\<rparr>"
    by (rule gfP12_coords)
  show ?thesis
    unfolding a b Mul_def Frobenius_defs Let_def gfP6_defs d
    apply (simp add: X_def [symmetric] g_def [symmetric])
    by (intro conjI; ((use g in algebra) | algebra))
qed

lemma FrobeniusP4_Mul:
  assumes t: "twist_ok c"
  shows "FrobeniusP4 c (Mul c a b) = Mul c (FrobeniusP4 c a) (FrobeniusP4 c b)"
proof -
  define g where "g = xiToPSquaredMinus1Over6 c"
  define X where "X = xi c"
  have d: "xiToPSquaredMinus1Over3 c = g * g"
    using t by (simp add: twist_ok_def g_def)
  have g: "g ^ 6 = 1"
    using twist_ok_sixth [OF t] by (simp add: g_def)
  obtain a5 a3 a1 a4 a2 a0 where a:
    "a = \<lparr>x12 = \<lparr>x6 = a5, y6 = a3, z6 = a1\<rparr>, y12 = \<lparr>x6 = a4, y6 = a2, z6 = a0\<rparr>\<rparr>"
    by (rule gfP12_coords)
  obtain b5 b3 b1 b4 b2 b0 where b:
    "b = \<lparr>x12 = \<lparr>x6 = b5, y6 = b3, z6 = b1\<rparr>, y12 = \<lparr>x6 = b4, y6 = b2, z6 = b0\<rparr>\<rparr>"
    by (rule gfP12_coords)
  show ?thesis
    unfolding a b Mul_def Frobenius_defs Let_def gfP6_defs d
    apply (simp add: X_def [symmetric] g_def [symmetric])
    by (intro conjI; ((use g in algebra) | algebra))
qed

lemma Conjugate_Mul: "Conjugate (Mul c a b) = Mul c (Conjugate a) (Conjugate b)"
  by (simp add: Mul_def Conjugate_def Let_def gfP6_defs algebra_simps)

lemma Conjugate_Conjugate: "Conjugate (Conjugate a) = a"
  by (simp add: Conjugate_def gfP6_defs)

lemma FrobeniusP2_Conjugate: "FrobeniusP2 c (Conjugate a) = Conjugate (FrobeniusP2 c a)"
  by (simp add: Conjugate_def Frobenius_defs Let_def gfP6_defs)

lemma FrobeniusP4_Conjugate: "FrobeniusP4 c (Conjugate a) = Conjugate (FrobeniusP4 c a)"
  by (simp add: Conjugate_def Frobenius_defs Let_def gfP6_defs)

lemma Mul_Mul_swap: "Mul c (Mul c a b) (Mul c d e) = Mul c (Mul c a d) (Mul c b e)"
  by (simp add: Mul_ac)

lemma norm1_Mul: "norm1 c a \<Longrightarrow> norm1 c b \<Longrightarrow> norm1 c (Mul c a b)"
  by (simp add: norm1_def Conjugate_Mul Mul_Mul_swap SetOne_Mul)

lemma norm1_Conjugate: "norm1 c a \<Longrightarrow> norm1 c (Conjugate a)"
  by (simp add: norm1_def Conjugate_Conjugate Mul_commute)

lemma cyclotomic_Mul:
  assumes "twist_ok c" "cyclotomic c a" "cyclotomic c b"
  shows "cyclotomic c (Mul c a b)"
  using assms
  by (simp add: cyclotomic_def norm1_Mul FrobeniusP2_Mul FrobeniusP4_Mul Mul_Mul_swap)

lemma cyclotomic_Conjugate:
  assumes "cyclotomic c a"
  shows "cyclotomic c (Conjugate a)"
  using assms
  by (simp add: cyclotomic_def norm1_Conjugate FrobeniusP2_Conjugate FrobeniusP4_Conjugate
      Conjugate_Mul [symmetric])

lemma SquareCyclo6_Square:
  assumes t: "twist_ok c" and h: "Mul c (FrobeniusP4 c a) a = FrobeniusP2 c a"
  shows "SquareCyclo6 c a = Square c a"
proof -
  define g where "g = xiToPSquaredMinus1Over6 c"
  define X where "X = xi c"
  have d: "xiToPSquaredMinus1Over3 c = g * g" and g: "g * g + 1 = g"
    using t by (simp_all add: twist_ok_def g_def)
  obtain a5 a3 a1 a4 a2 a0 where a:
    "a = \<lparr>x12 = \<lparr>x6 = a5, y6 = a3, z6 = a1\<rparr>, y12 = \<lparr>x6 = a4, y6 = a2, z6 = a0\<rparr>\<rparr>"
    by (rule gfP12_coords)
  note h' = h [unfolded a Mul_def Frobenius_defs Let_def gfP6_defs d, simplified,
      folded X_def g_def]
  show ?thesis
    unfolding a SquareCyclo6_def Square_def gfP4Square_def gfP2Square_def gfP2MulXi_def
      Let_def gfP6_defs
    apply (simp add: X_def [symmetric])
    apply (intro conjI)
    using h' g apply algebra
    using h' g apply algebra
    using h' g apply algebra
    using h' g apply algebra
    using h' g apply algebra
    using h' g apply algebra
    done
qed

lemma cyclotomic_SquareCyclo6:
  assumes "twist_ok c" "cyclotomic c a"
  shows "SquareCyclo6 c a = Mul c a a" and "cyclotomic c (SquareCyclo6 c a)"
proof -
  show e: "SquareCyclo6 c a = Mul c a a"
    using assms by (simp add: cyclotomic_def SquareCyclo6_Square Square_Mul)
  show "cyclotomic c (SquareCyclo6 c a)"
    unfolding e using assms by (simp add: cyclotomic_Mul)
qed

lemma cyclotomic_SetOne: "cyclotomic c SetOne"
  by (simp add: cyclotomic_def norm1_def Conjugate_def SetOne_def Mul_def Frobenius_defs
      Let_def gfP6_defs)

lemma cyclotomic_pow:
  assumes "twist_ok c" "cyclotomic c a"
  shows "cyclotomic c (gfP12pow c a n)"
  using assms by (induction n) (simp_all add: cyclotomic_SetOne cyclotomic_Mul)

lemma SquareCyclo6_pow:
  assumes "twist_ok c" "cyclotomic c a"
  shows "SquareCyclo6 c (gfP12pow c a n) = gfP12pow c a (2 * n)"
  using cyclotomic_SquareCyclo6(1) [OF assms(1) cyclotomic_pow [OF assms]]
  by (simp only: gfP12pow_double)

lemma gfP12pow_1: "gfP12pow c a 1 = a"
  by (simp add: Mul_SetOne)

lemma Mul_pow_self: "Mul c (gfP12pow c a n) a = gfP12pow c a (Suc n)"
  by (simp add: Mul_commute)

lemma gfP6Invert_SetOne: "gfP6Invert c gfP6SetOne = gfP6SetOne"
  by (simp add: gfP6Invert_def gfP6Norm_def Let_def gfP6_defs)

lemma Invert_norm1:
  assumes "norm1 c a"
  shows "Invert c a = Conjugate a"
proof -
  have "gfP6Sub (gfP6Square c (y12 a)) (gfP6MulTau c (gfP6Square c (x12 a))) =
      y12 (Mul c (Conjugate a) a)"
    by (simp add: Mul_def Conjugate_def Let_def gfP6_defs algebra_simps)
  also have "\<dots> = gfP6SetOne"
    using assms by (simp add: norm1_def SetOne_def)
  finally show ?thesis
    by (simp add: Invert_def Let_def gfP6Invert_SetOne MulScalar_def Conjugate_def)
      (simp add: gfP6_defs)
qed

text \<open>The addition chain of \<open>powToVCyclo6\<close>, step by step.\<close>

lemma chain_57:
  assumes "norm1 c (gfP12pow c a 8)"
  shows "Mul c (Mul c (Conjugate (gfP12pow c a 8)) a) (gfP12pow c a 64) = gfP12pow c a 57"
proof -
  have "gfP12pow c a 64 = Mul c (gfP12pow c a 8) (gfP12pow c a 56)"
    by (simp only: gfP12pow_add [symmetric]) simp
  then have "Mul c (Mul c (Conjugate (gfP12pow c a 8)) a) (gfP12pow c a 64) =
      Mul c (Mul c (Conjugate (gfP12pow c a 8)) (gfP12pow c a 8)) (Mul c a (gfP12pow c a 56))"
    by (simp only: Mul_Mul_swap)
  also have "\<dots> = Mul c a (gfP12pow c a 56)"
    using assms by (simp add: norm1_def SetOne_Mul)
  also have "\<dots> = gfP12pow c a (Suc 56)"
    by (simp only: gfP12pow.simps)
  finally show ?thesis by simp
qed

lemma powToVCyclo6_pow:
  assumes t: "twist_ok c" and h: "cyclotomic c a"
  shows "powToVCyclo6 c a = gfP12pow c a 1868033"
proof -
  note sq = SquareCyclo6_pow [OF t h]
  have n8: "norm1 c (gfP12pow c a 8)"
    using cyclotomic_pow [OF t h, of 8] by (simp add: cyclotomic_def)
  have a2: "SquareCyclo6 c a = gfP12pow c a 2"
    using sq [of 1] by (simp add: Mul_SetOne)
  show ?thesis
    unfolding powToVCyclo6_def Let_def a2
    by (simp add: sq Mul_pow_self chain_57 [OF n8])
qed

lemma PowToUCyclo6_pow:
  assumes t: "twist_ok c" and h: "cyclotomic c a"
  shows "PowToUCyclo6 c a = gfP12pow c a 6518589491078791937"
proof -
  note v = powToVCyclo6_pow [OF t cyclotomic_pow [OF t h]]
  show ?thesis
    unfolding PowToUCyclo6_def Let_def
    by (simp add: powToVCyclo6_pow [OF t h] v gfP12pow_mult)
qed

section \<open>Cyclotomic squaring\<close>

text \<open>
  Claim C4, as the spec states it, takes the cyclotomic subgroup to be the elements of
  norm 1.  The element \<open>-1\<close> has norm 1, its square is 1, and \<open>SquareCyclo6\<close> returns 5
  on it.
\<close>

theorem SquareCyclo6_norm1_counterexample:
  "norm1 c7 (Neg SetOne) \<and> SquareCyclo6 c7 (Neg SetOne) \<noteq> Square c7 (Neg SetOne)"
  by code_simp

text \<open>
  Claim C4, amended.  For every element \<open>a\<close> of the cyclotomic subgroup, that is of norm 1
  and with \<open>FrobeniusP4(a) \<cdot> a = FrobeniusP2(a)\<close>, \<open>SquareCyclo6\<close> of \<open>a\<close> equals \<open>Square\<close>
  of \<open>a\<close>.
\<close>

theorem SquareCyclo6_eq_Square:
  assumes "twist_ok c" and "cyclotomic c a"
  shows "SquareCyclo6 c a = Square c a"
  using assms by (simp add: cyclotomic_def SquareCyclo6_Square)

theorem SquareCyclo6_eq_Square_witness:
  "twist_ok c7 \<and> cyclotomic c7 g7 \<and> SquareCyclo6 c7 g7 = Square c7 g7"
proof -
  have t: "twist_ok c7" by code_simp
  have h: "cyclotomic c7 g7" by code_simp
  from SquareCyclo6_eq_Square [OF t h] t h show ?thesis by simp
qed

section \<open>The subgroup is closed under the operations of the addition chain\<close>

text \<open>
  Claim C10, as the spec states it, says that norm 1 is preserved by \<open>SquareCyclo6\<close>,
  \<open>powToVCyclo6\<close> and \<open>PowToUCyclo6\<close>.  The image of \<open>-1\<close> under \<open>SquareCyclo6\<close> is 5, of
  norm 25, and the images of \<open>n7\<close> under the two powers do not have norm 1 either.
\<close>

theorem norm1_invariant_counterexample:
  "norm1 c7 (Neg SetOne) \<and> \<not> norm1 c7 (SquareCyclo6 c7 (Neg SetOne)) \<and>
   norm1 c7 n7 \<and> \<not> norm1 c7 (powToVCyclo6 c7 n7) \<and> \<not> norm1 c7 (PowToUCyclo6 c7 n7)"
  by code_simp

text \<open>
  Claim C10, amended.  Norm 1 is preserved by \<open>Mul\<close>, \<open>Conjugate\<close> and \<open>Invert\<close>.
  Membership in the cyclotomic subgroup (norm 1 and \<open>FrobeniusP4(a) \<cdot> a = FrobeniusP2(a)\<close>)
  is preserved by \<open>Mul\<close>, \<open>SquareCyclo6\<close>, \<open>Conjugate\<close>, \<open>Invert\<close>, \<open>powToVCyclo6\<close> and
  \<open>PowToUCyclo6\<close>, and by every power of \<open>a\<close>, so that the precondition of
  \<open>SquareCyclo6\<close> holds at every step of the addition chain.
\<close>

theorem cyclotomic_invariant:
  assumes t: "twist_ok c" and na: "norm1 c a" and nb: "norm1 c b"
  shows "norm1 c (Mul c a b) \<and> norm1 c (Conjugate a) \<and> norm1 c (Invert c a) \<and>
    (cyclotomic c a \<and> cyclotomic c b \<longrightarrow>
       cyclotomic c (Mul c a b) \<and> cyclotomic c (SquareCyclo6 c a) \<and>
       cyclotomic c (Conjugate a) \<and> cyclotomic c (Invert c a) \<and>
       cyclotomic c (powToVCyclo6 c a) \<and> cyclotomic c (PowToUCyclo6 c a) \<and>
       (\<forall>n. cyclotomic c (gfP12pow c a n)))"
proof -
  have "norm1 c (Mul c a b)" using na nb by (rule norm1_Mul)
  moreover have "norm1 c (Conjugate a)" using na by (rule norm1_Conjugate)
  moreover have "norm1 c (Invert c a)"
    using na by (simp add: Invert_norm1 norm1_Conjugate)
  moreover have "cyclotomic c a \<and> cyclotomic c b \<longrightarrow>
       cyclotomic c (Mul c a b) \<and> cyclotomic c (SquareCyclo6 c a) \<and>
       cyclotomic c (Conjugate a) \<and> cyclotomic c (Invert c a) \<and>
       cyclotomic c (powToVCyclo6 c a) \<and> cyclotomic c (PowToUCyclo6 c a) \<and>
       (\<forall>n. cyclotomic c (gfP12pow c a n))"
  proof
    assume ab: "cyclotomic c a \<and> cyclotomic c b"
    then have ca: "cyclotomic c a" and cb: "cyclotomic c b" by simp_all
    have "cyclotomic c (Mul c a b)" using t ca cb by (rule cyclotomic_Mul)
    moreover have "cyclotomic c (SquareCyclo6 c a)"
      using t ca by (rule cyclotomic_SquareCyclo6)
    moreover have "cyclotomic c (Conjugate a)" using ca by (rule cyclotomic_Conjugate)
    moreover have "cyclotomic c (Invert c a)"
      using na ca by (simp add: Invert_norm1 cyclotomic_Conjugate)
    moreover have "cyclotomic c (powToVCyclo6 c a)"
      by (simp add: powToVCyclo6_pow [OF t ca] cyclotomic_pow [OF t ca])
    moreover have "cyclotomic c (PowToUCyclo6 c a)"
      by (simp add: PowToUCyclo6_pow [OF t ca] cyclotomic_pow [OF t ca])
    moreover have "\<forall>n. cyclotomic c (gfP12pow c a n)"
      by (simp add: cyclotomic_pow [OF t ca])
    ultimately show "cyclotomic c (Mul c a b) \<and> cyclotomic c (SquareCyclo6 c a) \<and>
       cyclotomic c (Conjugate a) \<and> cyclotomic c (Invert c a) \<and>
       cyclotomic c (powToVCyclo6 c a) \<and> cyclotomic c (PowToUCyclo6 c a) \<and>
       (\<forall>n. cyclotomic c (gfP12pow c a n))"
      by simp
  qed
  ultimately show ?thesis by simp
qed

theorem cyclotomic_invariant_witness:
  "twist_ok c7 \<and> norm1 c7 g7 \<and> norm1 c7 (Square c7 g7) \<and>
   cyclotomic c7 g7 \<and> cyclotomic c7 (Square c7 g7) \<and>
   norm1 c7 (Mul c7 g7 (Square c7 g7)) \<and> norm1 c7 (Conjugate g7) \<and>
   norm1 c7 (Invert c7 g7) \<and>
   cyclotomic c7 (Mul c7 g7 (Square c7 g7)) \<and> cyclotomic c7 (SquareCyclo6 c7 g7) \<and>
   cyclotomic c7 (Conjugate g7) \<and> cyclotomic c7 (Invert c7 g7) \<and>
   cyclotomic c7 (powToVCyclo6 c7 g7) \<and> cyclotomic c7 (PowToUCyclo6 c7 g7)"
proof -
  have t: "twist_ok c7" by code_simp
  have ca: "cyclotomic c7 g7" by code_simp
  have cb: "cyclotomic c7 (Square c7 g7)" by code_simp
  have na: "norm1 c7 g7" using ca by (simp add: cyclotomic_def)
  have nb: "norm1 c7 (Square c7 g7)" using cb by (simp add: cyclotomic_def)
  from cyclotomic_invariant [OF t na nb] t ca cb na nb show ?thesis by simp
qed

section \<open>The fixed-exponent powers\<close>

lemma Exp_numeral: "Exp c a (numeral k) = gfP12pow c a (numeral k)"
  using Exp_pow [of c a "numeral k"] by simp

lemma funpow_3: "(f ^^ 3) x = f (f (f x))"
  by (simp add: numeral_3_eq_3)

lemma funpow_7: "(f ^^ 7) x = f (f (f (f (f (f (f x))))))"
  by (simp add: numeral_eq_Suc)

lemma funpow_8: "(f ^^ 8) x = f (f (f (f (f (f (f (f x)))))))"
  by (simp add: numeral_eq_Suc)

lemma powToVCyclo6_chain:
  "powToVCyclo6 c a =
     Mul c ((SquareCyclo6 c ^^ 8) (Mul c ((SquareCyclo6 c ^^ 7)
       (Mul c (Mul c (Conjugate ((SquareCyclo6 c ^^ 3) a)) a)
          ((SquareCyclo6 c ^^ 3) ((SquareCyclo6 c ^^ 3) a)))) a)) a"
  by (simp only: powToVCyclo6_def Let_def funpow_3 funpow_7 funpow_8)

text \<open>
  Claim C2, as the spec states it, asks only for norm 1.  The element \<open>n7\<close> has norm 1 and
  \<open>powToVCyclo6\<close> does not return its 1868033-rd power.
\<close>

theorem powToVCyclo6_norm1_counterexample:
  "norm1 c7 n7 \<and> powToVCyclo6 c7 n7 \<noteq> Exp c7 n7 1868033"
  by code_simp

text \<open>
  Claim C2, amended.  For every element \<open>a\<close> of the cyclotomic subgroup (norm 1 and
  \<open>FrobeniusP4(a) \<cdot> a = FrobeniusP2(a)\<close>), \<open>powToVCyclo6\<close> of \<open>a\<close> equals \<open>Exp\<close> of \<open>a\<close> at
  1868033, and it is computed by the addition chain of the spec: three cyclotomic
  squarings to \<open>a^8\<close>, three more to \<open>a^64\<close>, the conjugate \<open>a^(-8)\<close>, times \<open>a\<close> to
  \<open>a^(-7)\<close>, times \<open>a^64\<close> to \<open>a^57\<close>, seven squarings to \<open>a^7296\<close>, times \<open>a\<close> to \<open>a^7297\<close>,
  eight squarings to \<open>a^1868032\<close>, and a last multiplication by \<open>a\<close>.
\<close>

theorem powToVCyclo6_eq_Exp:
  assumes t: "twist_ok c" and h: "cyclotomic c a"
  shows "(SquareCyclo6 c ^^ 3) a = Exp c a 8 \<and>
    (SquareCyclo6 c ^^ 3) (Exp c a 8) = Exp c a 64 \<and>
    Mul c (Conjugate (Exp c a 8)) (Exp c a 8) = SetOne \<and>
    Mul c (Mul c (Conjugate (Exp c a 8)) a) (Exp c a 7) = SetOne \<and>
    Mul c (Mul c (Conjugate (Exp c a 8)) a) (Exp c a 64) = Exp c a 57 \<and>
    (SquareCyclo6 c ^^ 7) (Exp c a 57) = Exp c a 7296 \<and>
    Mul c (Exp c a 7296) a = Exp c a 7297 \<and>
    (SquareCyclo6 c ^^ 8) (Exp c a 7297) = Exp c a 1868032 \<and>
    Mul c (Exp c a 1868032) a = Exp c a 1868033 \<and>
    powToVCyclo6 c a =
      Mul c ((SquareCyclo6 c ^^ 8) (Mul c ((SquareCyclo6 c ^^ 7)
        (Mul c (Mul c (Conjugate ((SquareCyclo6 c ^^ 3) a)) a)
           ((SquareCyclo6 c ^^ 3) ((SquareCyclo6 c ^^ 3) a)))) a)) a \<and>
    powToVCyclo6 c a = Exp c a 1868033"
proof -
  note sq = SquareCyclo6_pow [OF t h]
  have n8: "norm1 c (gfP12pow c a 8)"
    using cyclotomic_pow [OF t h, of 8] by (simp add: cyclotomic_def)
  have a2: "SquareCyclo6 c a = gfP12pow c a 2"
    using sq [of 1] by (simp add: Mul_SetOne)
  have s1: "(SquareCyclo6 c ^^ 3) a = Exp c a 8"
    by (simp add: funpow_3 a2 sq Exp_numeral)
  have s2: "(SquareCyclo6 c ^^ 3) (Exp c a 8) = Exp c a 64"
    by (simp add: funpow_3 sq Exp_numeral)
  have s3: "Mul c (Conjugate (Exp c a 8)) (Exp c a 8) = SetOne"
    using n8 by (simp add: Exp_numeral norm1_def)
  have "Mul c (Mul c (Conjugate (gfP12pow c a 8)) a) (gfP12pow c a 7) =
      Mul c (Conjugate (gfP12pow c a 8)) (gfP12pow c a (Suc 7))"
    by (simp only: gfP12pow.simps Mul_assoc)
  then have s4: "Mul c (Mul c (Conjugate (Exp c a 8)) a) (Exp c a 7) = SetOne"
    using n8 by (simp add: Exp_numeral norm1_def)
  have s5: "Mul c (Mul c (Conjugate (Exp c a 8)) a) (Exp c a 64) = Exp c a 57"
    by (simp add: Exp_numeral chain_57 [OF n8])
  have s6: "(SquareCyclo6 c ^^ 7) (Exp c a 57) = Exp c a 7296"
    by (simp add: funpow_7 sq Exp_numeral)
  have s7: "Mul c (Exp c a 7296) a = Exp c a 7297"
    by (simp add: Exp_numeral Mul_pow_self)
  have s8: "(SquareCyclo6 c ^^ 8) (Exp c a 7297) = Exp c a 1868032"
    by (simp add: funpow_8 sq Exp_numeral)
  have s9: "Mul c (Exp c a 1868032) a = Exp c a 1868033"
    by (simp add: Exp_numeral Mul_pow_self)
  have s10: "powToVCyclo6 c a = Exp c a 1868033"
    by (simp add: powToVCyclo6_pow [OF t h] Exp_numeral)
  show ?thesis
    using s1 s2 s3 s4 s5 s6 s7 s8 s9 s10 powToVCyclo6_chain [of c a] by blast
qed

theorem powToVCyclo6_eq_Exp_witness:
  "twist_ok c7 \<and> cyclotomic c7 g7 \<and> powToVCyclo6 c7 g7 = Exp c7 g7 1868033 \<and>
   (SquareCyclo6 c7 ^^ 3) g7 = Exp c7 g7 8 \<and>
   Mul c7 (Mul c7 (Conjugate (Exp c7 g7 8)) g7) (Exp c7 g7 64) = Exp c7 g7 57"
proof -
  have t: "twist_ok c7" by code_simp
  have h: "cyclotomic c7 g7" by code_simp
  from powToVCyclo6_eq_Exp [OF t h] t h show ?thesis by simp
qed

text \<open>
  Claim C1, as the spec states it, asks only for norm 1 and gives the exponent as
  1868033^3 = 6521908213921992257.  The cube of 1868033 is 6518589491078791937.  On \<open>n7\<close>,
  of norm 1, \<open>PowToUCyclo6\<close> returns neither power; on \<open>g7\<close>, in the cyclotomic subgroup, it
  does not return the power at 6521908213921992257.
\<close>

theorem PowToUCyclo6_counterexample:
  "norm1 c7 n7 \<and> PowToUCyclo6 c7 n7 \<noteq> Exp c7 n7 (1868033 ^ 3) \<and>
   PowToUCyclo6 c7 n7 \<noteq> Exp c7 n7 6521908213921992257 \<and>
   norm1 c7 g7 \<and> cyclotomic c7 g7 \<and>
   PowToUCyclo6 c7 g7 \<noteq> Exp c7 g7 6521908213921992257 \<and>
   (1868033::int) ^ 3 \<noteq> 6521908213921992257"
  by code_simp

text \<open>
  Claim C1, amended.  For every element \<open>a\<close> of the cyclotomic subgroup (norm 1 and
  \<open>FrobeniusP4(a) \<cdot> a = FrobeniusP2(a)\<close>), \<open>PowToUCyclo6\<close> of \<open>a\<close> equals \<open>Exp\<close> of \<open>a\<close> at
  \<open>u = 1868033^3 = 6518589491078791937\<close>.
\<close>

theorem PowToUCyclo6_eq_Exp:
  assumes t: "twist_ok c" and h: "cyclotomic c a"
  shows "PowToUCyclo6 c a = Exp c a (1868033 ^ 3) \<and>
    PowToUCyclo6 c a = Exp c a 6518589491078791937 \<and>
    (1868033::int) ^ 3 = 6518589491078791937"
proof -
  have u: "(1868033::int) ^ 3 = 6518589491078791937" by simp
  have "PowToUCyclo6 c a = Exp c a 6518589491078791937"
    by (simp add: PowToUCyclo6_pow [OF t h] Exp_numeral)
  then show ?thesis by (simp only: u)
qed

theorem PowToUCyclo6_eq_Exp_witness:
  "twist_ok c7 \<and> cyclotomic c7 g7 \<and> PowToUCyclo6 c7 g7 = Exp c7 g7 (1868033 ^ 3)"
proof -
  have t: "twist_ok c7" by code_simp
  have h: "cyclotomic c7 g7" by code_simp
  from PowToUCyclo6_eq_Exp [OF t h] t h show ?thesis by simp
qed

section \<open>Inversion\<close>

lemma gfP6_coords:
  obtains x y z where "a = \<lparr>x6 = x, y6 = y, z6 = z\<rparr>"
  by (cases a) auto

lemma gfP6Norm_poly:
  "gfP6Norm c \<lparr>x6 = x, y6 = y, z6 = z\<rparr> =
     xi c * xi c * (x * x * x) + xi c * (y * y * y) + z * z * z - 3 * xi c * (x * y * z)"
  by (simp add: gfP6Norm_def Let_def algebra_simps)

lemma gfP6Invert_Mul:
  assumes "gfP6Norm c a \<noteq> 0"
  shows "gfP6Mul c (gfP6Invert c a) a = gfP6SetOne"
proof -
  obtain x y z where a: "a = \<lparr>x6 = x, y6 = y, z6 = z\<rparr>" by (rule gfP6_coords)
  define F where "F = inverse (gfP6Norm c a)"
  have F: "F * gfP6Norm c a = 1" using assms by (simp add: F_def)
  have "gfP6Mul c (gfP6Invert c a) a =
      \<lparr>x6 = 0, y6 = 0, z6 = F * gfP6Norm c a\<rparr>"
    unfolding gfP6Invert_def Let_def F_def [symmetric]
    by (simp add: a gfP6Mul_def gfP6Norm_def Let_def algebra_simps)
  then show ?thesis by (simp add: F gfP6SetOne_def)
qed

lemma gfP6Norm_Mul_self: "gfP6Norm c (gfP6Mul c a a) = gfP6Norm c a * gfP6Norm c a"
proof -
  obtain x y z where a: "a = \<lparr>x6 = x, y6 = y, z6 = z\<rparr>" by (rule gfP6_coords)
  show ?thesis
    by (simp add: a gfP6Mul_def gfP6Norm_def Let_def) algebra
qed

lemma gfP6Norm_MulTau: "gfP6Norm c (gfP6MulTau c a) = xi c * gfP6Norm c a"
proof -
  obtain x y z where a: "a = \<lparr>x6 = x, y6 = y, z6 = z\<rparr>" by (rule gfP6_coords)
  show ?thesis
    by (simp add: a gfP6MulTau_def gfP6Norm_def Let_def) algebra
qed

lemma gfP6Norm_zero:
  assumes nr: "nonresidue c" and n: "gfP6Norm c a = 0"
  shows "a = gfP6SetZero"
proof -
  obtain x y z where a: "a = \<lparr>x6 = x, y6 = y, z6 = z\<rparr>" by (rule gfP6_coords)
  define X where "X = xi c"
  define B where "B = X * (x * x) - y * z"
  define C where "C = y * y - x * z"
  have cube: "t * t * t \<noteq> X" for t using nr by (simp add: nonresidue_def X_def)
  have N: "X * (C * y) + (z * z - X * (x * y)) * z + X * (B * x) = 0"
    using n by (simp add: a gfP6Norm_def Let_def B_def C_def X_def)
  have "B * B * B - X * (C * C * C) =
      (B * x - C * y) * (X * (C * y) + (z * z - X * (x * y)) * z + X * (B * x))"
    unfolding B_def C_def by algebra
  then have BC: "B * B * B = X * (C * C * C)" by (simp add: N)
  have C0: "C = 0"
  proof (rule ccontr)
    assume "C \<noteq> 0"
    then have "(B / C) * (B / C) * (B / C) = X"
      using BC by (simp add: field_simps)
    then show False using cube by blast
  qed
  then have "B * B * B = 0" using BC by simp
  then have B0: "B = 0" by simp
  have x0: "x = 0"
  proof (rule ccontr)
    assume x: "x \<noteq> 0"
    have "y * y = x * z" using C0 by (simp add: C_def)
    moreover have "y * z = X * (x * x)" using B0 by (simp add: B_def)
    ultimately have "y * y * y = X * (x * x * x)"
      by (metis (no_types, opaque_lifting) mult.assoc mult.left_commute)
    then have "(y / x) * (y / x) * (y / x) = X"
      using x by (simp add: field_simps)
    then show False using cube by blast
  qed
  have y0: "y = 0" using C0 x0 by (simp add: C_def)
  have "z * z * z = 0" using N x0 y0 by (simp add: B_def)
  then have "z = 0" by simp
  then show ?thesis by (simp add: a x0 y0 gfP6SetZero_def)
qed

lemma gfP6Norm_SetZero: "gfP6Norm c gfP6SetZero = 0"
  by (simp add: gfP6Norm_def gfP6SetZero_def)

lemma Invert_norm_nonzero:
  assumes nr: "nonresidue c" and nz: "\<not> IsZero a"
  shows "gfP6Norm c (gfP6Sub (gfP6Square c (y12 a)) (gfP6MulTau c (gfP6Square c (x12 a)))) \<noteq> 0"
proof
  define x where "x = x12 a"
  define y where "y = y12 a"
  assume "gfP6Norm c (gfP6Sub (gfP6Square c (y12 a)) (gfP6MulTau c (gfP6Square c (x12 a)))) = 0"
  then have "gfP6Sub (gfP6Square c y) (gfP6MulTau c (gfP6Square c x)) = gfP6SetZero"
    using gfP6Norm_zero [OF nr] by (simp add: x_def y_def)
  then have e: "gfP6Mul c y y = gfP6MulTau c (gfP6Mul c x x)"
    by (simp add: gfP6_defs)
  have "gfP6Norm c (gfP6Mul c y y) = gfP6Norm c (gfP6MulTau c (gfP6Mul c x x))"
    by (simp only: e)
  then have n: "gfP6Norm c y * gfP6Norm c y = xi c * (gfP6Norm c x * gfP6Norm c x)"
    by (simp only: gfP6Norm_Mul_self gfP6Norm_MulTau)
  have x0: "gfP6Norm c x = 0"
  proof (rule ccontr)
    assume "gfP6Norm c x \<noteq> 0"
    then have "(gfP6Norm c y / gfP6Norm c x) * (gfP6Norm c y / gfP6Norm c x) = xi c"
      using n by (simp add: field_simps)
    then show False using nr unfolding nonresidue_def by blast
  qed
  then have "gfP6Norm c y = 0" using n by simp
  then have "x = gfP6SetZero" "y = gfP6SetZero"
    using x0 gfP6Norm_zero [OF nr] by simp_all
  then show False using nz by (simp add: IsZero_def gfP6IsZero_def x_def y_def gfP6SetZero_def)
qed

lemma MulScalar_Mul_left: "Mul c (MulScalar c e m) a = MulScalar c (Mul c e a) m"
  by (simp add: MulScalar_def Mul_def Let_def gfP6_defs algebra_simps)

lemma Invert_Mul_aux:
  assumes nr: "nonresidue c" and nz: "\<not> IsZero a"
  shows "Mul c (Invert c a) a = SetOne"
proof -
  define n where "n = gfP6Sub (gfP6Square c (y12 a)) (gfP6MulTau c (gfP6Square c (x12 a)))"
  define m where "m = gfP6Invert c n"
  have mn: "gfP6Mul c m n = gfP6SetOne"
    unfolding m_def n_def by (rule gfP6Invert_Mul [OF Invert_norm_nonzero [OF nr nz]])
  have "Invert c a = MulScalar c (Conjugate a) m"
    by (simp only: Invert_def Let_def n_def m_def Conjugate_def)
  then have "Mul c (Invert c a) a = MulScalar c (Mul c (Conjugate a) a) m"
    by (simp only: MulScalar_Mul_left)
  also have "Mul c (Conjugate a) a = \<lparr>x12 = gfP6SetZero, y12 = n\<rparr>"
    by (simp add: n_def Mul_def Conjugate_def Let_def gfP6_defs algebra_simps)
  also have "MulScalar c \<lparr>x12 = gfP6SetZero, y12 = n\<rparr> m =
      \<lparr>x12 = gfP6SetZero, y12 = gfP6Mul c m n\<rparr>"
    by (simp add: MulScalar_def gfP6_defs algebra_simps)
  finally show ?thesis by (simp add: mn SetOne_def)
qed

text \<open>At p = 7, \<open>i + 3\<close> is neither a square nor a cube.\<close>

lemma nonresidue_c7: "nonresidue c7"
proof -
  have "t * t \<noteq> F49 A1 A3 \<and> t * t * t \<noteq> F49 A1 A3" for t :: F49
  proof -
    obtain x y where t: "t = F49 x y" by (cases t)
    show ?thesis
      unfolding t by (cases x; cases y; simp add: times_F49_def times_F7_def minus_F7_def plus_F7_def zero_F7_def)
  qed
  then show ?thesis by (simp add: nonresidue_def c7_def)
qed

text \<open>
  Claim C5.  For every element \<open>a\<close> of GF(p^12) other than zero, the product of
  \<open>Invert\<close> of \<open>a\<close> and \<open>a\<close> is the one element: \<open>Invert\<close>, computed as \<open>(-x, y)\<close>
  scaled by the inverse of the norm \<open>y^2 - \<tau> x^2\<close>, is the multiplicative inverse.
\<close>

theorem Invert_Mul:
  assumes "nonresidue c" and "\<not> IsZero a"
  shows "Mul c (Invert c a) a = SetOne"
  using assms by (rule Invert_Mul_aux)

theorem Invert_Mul_witness:
  "nonresidue c7 \<and> \<not> IsZero g7 \<and> Mul c7 (Invert c7 g7) g7 = SetOne \<and>
   \<not> IsZero n7 \<and> Mul c7 (Invert c7 n7) n7 = SetOne"
proof -
  have g: "\<not> IsZero g7" by code_simp
  have n: "\<not> IsZero n7" by code_simp
  from Invert_Mul [OF nonresidue_c7 g] Invert_Mul [OF nonresidue_c7 n] nonresidue_c7 g n
  show ?thesis by simp
qed

section \<open>The order of the Frobenius map\<close>

text \<open>Two applications of \<open>Frobenius\<close> are one of \<open>FrobeniusP2\<close>.\<close>

lemma Frobenius_Frobenius:
  assumes f: "frobenius_ok c" and t: "twist_ok c"
  shows "Frobenius c (Frobenius c a) = FrobeniusP2 c a"
proof -
  define k where "k = xiToPMinus1Over6 c"
  define k' where "k' = gfP2Conjugate c k"
  have m: "gfP2Conjugate c (x * y) = gfP2Conjugate c x * gfP2Conjugate c y" for x y
    using f by (simp add: frobenius_ok_def)
  have i: "gfP2Conjugate c (gfP2Conjugate c x) = x" for x
    using f by (simp add: frobenius_ok_def)
  have g: "xiToPSquaredMinus1Over6 c = k * k'"
    using f by (simp add: frobenius_ok_def k_def k'_def)
  have d: "xiToPSquaredMinus1Over3 c = (k * k') * (k * k')"
    using t by (simp add: twist_ok_def g)
  show ?thesis
    unfolding Frobenius_def gfP6Frobenius_def FrobeniusP2_def gfP6FrobeniusP2_def Let_def
      gfP6_defs d g k_def [symmetric]
    by (simp add: m i k'_def [symmetric] algebra_simps)
qed

lemma FrobeniusP2_cubed:
  assumes t: "twist_ok c"
  shows "FrobeniusP2 c (FrobeniusP2 c (FrobeniusP2 c a)) = Conjugate a"
proof -
  define g where "g = xiToPSquaredMinus1Over6 c"
  have d: "xiToPSquaredMinus1Over3 c = g * g" and g: "g * g + 1 = g"
    using t by (simp_all add: twist_ok_def g_def)
  have g2: "g * g = g - 1" using g by (simp add: algebra_simps)
  have "g * g * g = (g - 1) * g" by (simp add: g2)
  also have "\<dots> = g * g - g" by (simp add: algebra_simps)
  also have "\<dots> = - 1" by (simp add: g2)
  finally have g3: "g ^ 3 = - 1" by (simp add: power3_eq_cube)
  obtain a5 a3 a1 a4 a2 a0 where a:
    "a = \<lparr>x12 = \<lparr>x6 = a5, y6 = a3, z6 = a1\<rparr>, y12 = \<lparr>x6 = a4, y6 = a2, z6 = a0\<rparr>\<rparr>"
    by (rule gfP12_coords)
  show ?thesis
    unfolding a Frobenius_defs Conjugate_def Let_def gfP6_defs d
    apply (simp add: g_def [symmetric])
    by (intro conjI; ((use g3 in algebra) | algebra))
qed

lemma funpow_6: "(f ^^ 6) x = f (f (f (f (f (f x)))))"
  by (simp add: numeral_eq_Suc)

lemma funpow_12: "(f ^^ 12) x = (f ^^ 6) ((f ^^ 6) x)"
  using funpow_add [of 6 6 f] by simp

lemma Frobenius_6:
  assumes f: "frobenius_ok c" and t: "twist_ok c"
  shows "(Frobenius c ^^ 6) a = Conjugate a"
  by (simp only: funpow_6 Frobenius_Frobenius [OF f t] FrobeniusP2_cubed [OF t])

text \<open>
  Claim C6, amended.  For every element \<open>a\<close>, applying \<open>Frobenius\<close> six times returns the
  conjugate of \<open>a\<close>, and applying it twelve times returns \<open>a\<close>.
\<close>

theorem Frobenius_order:
  assumes f: "frobenius_ok c" and t: "twist_ok c"
  shows "(Frobenius c ^^ 6) a = Conjugate a \<and> (Frobenius c ^^ 12) a = a"
  by (simp only: funpow_12 Frobenius_6 [OF f t] Conjugate_Conjugate)

text \<open>
  Claim C6, as the spec states it, says that six applications of \<open>Frobenius\<close> return \<open>a\<close>.
  On \<open>g7\<close> they return the conjugate, which differs from \<open>g7\<close>.
\<close>

theorem Frobenius_6_counterexample:
  "(Frobenius c7 ^^ 6) g7 \<noteq> g7 \<and> (Frobenius c7 ^^ 6) g7 = Conjugate g7"
  by code_simp

lemma frobenius_ok_c7: "frobenius_ok c7"
proof -
  have "F49 (- im (x * y)) (re (x * y)) = F49 (- im x) (re x) * F49 (- im y) (re y)"
    for x y :: F49
    by (simp add: times_F49_def algebra_simps)
  moreover have "F49 A1 A3 * F49 (- A1) A3 = F49 A0 A3"
    by code_simp
  ultimately show ?thesis
    by (simp add: frobenius_ok_def c7_def)
qed

theorem Frobenius_order_witness:
  "frobenius_ok c7 \<and> twist_ok c7 \<and> (Frobenius c7 ^^ 6) g7 = Conjugate g7 \<and>
   (Frobenius c7 ^^ 12) g7 = g7"
proof -
  have t: "twist_ok c7" by code_simp
  from Frobenius_order [OF frobenius_ok_c7 t] frobenius_ok_c7 t show ?thesis by simp
qed

section \<open>Aliasing of the destination\<close>

text \<open>
  The value left at the destination is the value of the pure operation on what the
  operands held before the call, whether or not the destination is one of them.
\<close>

lemmas st_defs = wr_x_def wr_y_def Let_def

lemma rd_wr_x: "y12 (rd (wr_x e v s) a) = y12 (rd s a)"
  by (cases a) (simp_all add: wr_x_def)

lemma Set_st_val: "Set_st e a s e = rd s a"
  by (cases a) (simp_all add: Set_st_def st_defs)

lemma Conjugate_st_val: "Conjugate_st e a s e = Conjugate (rd s a)"
  by (cases a) (simp_all add: Conjugate_st_def Conjugate_def st_defs)

lemma Neg_st_val: "Neg_st e a s e = Neg (rd s a)"
  by (cases a) (simp_all add: Neg_st_def Neg_def st_defs)

lemma Frobenius_st_val: "Frobenius_st c e a s e = Frobenius c (rd s a)"
  by (cases a) (simp_all add: Frobenius_st_def Frobenius_def st_defs)

lemma FrobeniusP2_st_val: "FrobeniusP2_st c e a s e = FrobeniusP2 c (rd s a)"
  by (cases a) (simp_all add: FrobeniusP2_st_def FrobeniusP2_def st_defs)

lemma FrobeniusP4_st_val: "FrobeniusP4_st c e a s e = FrobeniusP4 c (rd s a)"
  by (cases a) (simp_all add: FrobeniusP4_st_def FrobeniusP4_def st_defs)

lemma Add_st_val: "Add_st e a b s e = Add (rd s a) (rd s b)"
  by (cases a; cases b) (simp_all add: Add_st_def Add_def st_defs)

lemma Sub_st_val: "Sub_st e a b s e = Sub (rd s a) (rd s b)"
  by (cases a; cases b) (simp_all add: Sub_st_def Sub_def st_defs)

lemma Mul_st_val: "Mul_st c e a b s e = Mul c (rd s a) (rd s b)"
  by (simp add: Mul_st_def Mul_def st_defs)

lemma MulScalar_st_val:
  "b \<noteq> XOf e \<Longrightarrow> MulScalar_st c e a b s e = MulScalar c (rd s a) (rd6 s b)"
  by (cases a; cases b) (simp_all add: MulScalar_st_def MulScalar_def st_defs)

lemma Square_st_val: "Square_st c e a s e = Square c (rd s a)"
  by (simp add: Square_st_def Square_def st_defs)

lemma SquareCyclo6_st_val: "SquareCyclo6_st c e a s e = SquareCyclo6 c (rd s a)"
  by (simp add: SquareCyclo6_st_def Set_st_val)

lemma Exp_st_val: "Exp_st c e a p s e = Exp c (rd s a) p"
  by (simp add: Exp_st_def Exp_def Set_st_val)

lemma powToVCyclo6_st_val: "powToVCyclo6_st c e a s e = powToVCyclo6 c (rd s a)"
  by (simp add: powToVCyclo6_st_def powToVCyclo6_def Let_def Mul_st_val)

lemma PowToUCyclo6_st_val: "PowToUCyclo6_st c e a s e = PowToUCyclo6 c (rd s a)"
  by (simp add: PowToUCyclo6_st_def PowToUCyclo6_def Let_def powToVCyclo6_st_val)

lemma Invert_st_val: "Invert_st c e a s e = Invert c (rd s a)"
  by (cases a) (simp_all add: Invert_st_def Invert_def MulScalar_st_val MulScalar_def st_defs)

text \<open>
  Claim C8, as the spec states it, covers every source operand of every operation.  The
  second operand of \<open>MulScalar\<close> is a pointer to a gfP6 value, which may be the x
  coordinate of the destination: \<open>e.MulScalar(a, &e.x)\<close>.  The first statement overwrites
  it, the second reads it again, and the result differs from that of the same call with a
  distinct destination.
\<close>

theorem alias_counterexample:
  "MulScalar_st c7 0 (At 1) (XOf 0) s7 0 \<noteq> MulScalar_st c7 2 (At 1) (XOf 0) s7 2 \<and>
   MulScalar_st c7 0 (At 0) (XOf 0) s7 0 \<noteq> MulScalar_st c7 2 (At 0) (XOf 0) s7 2"
  by code_simp

text \<open>
  Claim C8, amended.  For every mutating operation and all operands, the value left at the
  destination is the same whether the destination is one of the gfP12 source operands or
  a distinct object; for \<open>MulScalar\<close> the gfP6 operand may be the y coordinate of the
  destination or lie elsewhere, but it is not the x coordinate of the destination.
\<close>

theorem alias_safe:
  "Set_st e a s e = rd s a \<and>
   Neg_st e a s e = Neg (rd s a) \<and>
   Conjugate_st e a s e = Conjugate (rd s a) \<and>
   Add_st e a b s e = Add (rd s a) (rd s b) \<and>
   Sub_st e a b s e = Sub (rd s a) (rd s b) \<and>
   Mul_st c e a b s e = Mul c (rd s a) (rd s b) \<and>
   (b' \<noteq> XOf e \<longrightarrow> MulScalar_st c e a b' s e = MulScalar c (rd s a) (rd6 s b')) \<and>
   Square_st c e a s e = Square c (rd s a) \<and>
   SquareCyclo6_st c e a s e = SquareCyclo6 c (rd s a) \<and>
   Frobenius_st c e a s e = Frobenius c (rd s a) \<and>
   FrobeniusP2_st c e a s e = FrobeniusP2 c (rd s a) \<and>
   FrobeniusP4_st c e a s e = FrobeniusP4 c (rd s a) \<and>
   Invert_st c e a s e = Invert c (rd s a) \<and>
   Exp_st c e a p s e = Exp c (rd s a) p \<and>
   powToVCyclo6_st c e a s e = powToVCyclo6 c (rd s a) \<and>
   PowToUCyclo6_st c e a s e = PowToUCyclo6 c (rd s a)"
  by (simp only: Set_st_val Neg_st_val Conjugate_st_val Add_st_val Sub_st_val Mul_st_val
      MulScalar_st_val Square_st_val SquareCyclo6_st_val Frobenius_st_val FrobeniusP2_st_val
      FrobeniusP4_st_val Invert_st_val Exp_st_val powToVCyclo6_st_val PowToUCyclo6_st_val)
    (simp add: MulScalar_st_val)

theorem alias_safe_witness:
  "YOf 0 \<noteq> (XOf 0 :: F49 operand6) \<and>
   MulScalar_st c7 0 (At 0) (YOf 0) s7 0 = MulScalar c7 (s7 0) (y12 (s7 0)) \<and>
   MulScalar_st c7 0 (At 0) (YOf 0) s7 0 = MulScalar_st c7 2 (At 0) (YOf 0) s7 2 \<and>
   Mul_st c7 0 (At 0) (At 0) s7 0 = Mul_st c7 2 (At 0) (At 0) s7 2 \<and>
   PowToUCyclo6_st c7 0 (At 0) s7 0 = PowToUCyclo6_st c7 2 (At 0) s7 2"
proof -
  have h: "YOf 0 \<noteq> (XOf 0 :: F49 operand6)" by simp
  note a = alias_safe [of 0 "At 0" s7 "At 0" c7 "YOf 0" 0]
  note b = alias_safe [of 2 "At 0" s7 "At 0" c7 "YOf 0" 0]
  from a b h show ?thesis by (simp add: s7_def)
qed

end
